theory Spec2Isabelle
  imports Main "HOL-Library.Word"
begin

section \<open>helm-patchdiff: data model\<close>

text \<open>
  The program (src/main.go) is glue over the Helm and Kubernetes client libraries.
  Everything that lives in those libraries is a field of the record \<open>env\<close> below: the
  embedding fixes what main.go itself does (order of calls, error handling, branching),
  and every theorem holds for whatever the libraries return.

  Go strings and byte slices are byte sequences: \<open>string\<close> here, with \<open>length\<close> the
  byte length that Go's \<open>len\<close> returns.
\<close>

type_synonym bytes = string

text \<open>
  Go errors. \<open>Errorf\<close> keeps the format and its arguments apart (no model of the
  formatting verbs is needed); \<open>Wrap\<close> is \<open>errors.Wrap\<close>/\<open>errors.Wrapf\<close> of
  github.com/pkg/errors; \<open>StatusError reason\<close> is an API status error of the
  Kubernetes client; \<open>ErrReleaseNotFound\<close> and \<open>ErrNoDeployedReleases\<close> are the
  sentinels of helm's storage driver; \<open>LibError\<close> is any other error of a library;
  \<open>Panic\<close> is a Go run-time panic.
\<close>

datatype error =
    ErrorsNew string
  | Errorf string "string list"
  | Wrap error string "string list"
  | StatusError string
  | ErrReleaseNotFound
  | ErrNoDeployedReleases
  | LibError string
  | Panic string

text \<open>\<open>errors.Is\<close>: the target is searched along the chain of wrapped errors.\<close>

fun errors_Is :: "error \<Rightarrow> error \<Rightarrow> bool" where
  "errors_Is (Wrap e msg args) t = (Wrap e msg args = t \<or> errors_Is e t)"
| "errors_Is e t = (e = t)"

text \<open>
  \<open>apierrors.IsNotFound\<close> (k8s.io/apimachinery v0.18.8): true exactly for an API status
  error whose reason is NotFound; false for nil and for every other error.
\<close>

fun IsNotFound :: "error option \<Rightarrow> bool" where
  "IsNotFound (Some (StatusError reason)) = (reason = ''NotFound'')"
| "IsNotFound _ = False"

text \<open>
  \<open>driver.NewErrNoDeployedReleases(name)\<close>: an error that carries the release name and
  unwraps to the sentinel.
\<close>

definition NewErrNoDeployedReleases :: "string \<Rightarrow> error" where
  "NewErrNoDeployedReleases name = Wrap ErrNoDeployedReleases ''%q %s'' [name]"

text \<open>\<open>release.Status\<close> is a Go string type; the constants main.go compares with.\<close>

type_synonym Status = string

definition StatusDeployed :: Status where "StatusDeployed = ''deployed''"
definition StatusFailed :: Status where "StatusFailed = ''failed''"
definition StatusSuperseded :: Status where "StatusSuperseded = ''superseded''"

text \<open>
  \<open>release.Release\<close>, the fields main.go reads. \<open>Version\<close> is a Go \<open>int\<close>: a 64-bit
  word, so that \<open>+ 1\<close> wraps as it does in Go.
\<close>

record release =
  rel_Name :: string
  rel_Status :: Status
  rel_Manifest :: string
  rel_Namespace :: string
  rel_Version :: "64 word"

text \<open>\<open>chartutil.ReleaseOptions\<close>; main.go leaves \<open>IsInstall\<close> at its zero value.\<close>

record ReleaseOptions =
  opt_Name :: string
  opt_Namespace :: string
  opt_Revision :: "64 word"
  opt_IsUpgrade :: bool
  opt_IsInstall :: bool

record KubeVersion =
  kv_Version :: string
  kv_Major :: string
  kv_Minor :: string

record Capabilities =
  cap_APIVersions :: "string list"
  cap_KubeVersion :: KubeVersion

text \<open>\<open>version.Info\<close> as returned by the discovery client.\<close>

record version_Info =
  vi_GitVersion :: string
  vi_Major :: string
  vi_Minor :: string

text \<open>\<open>chart.Chart\<close>: the metadata field main.go reads, the rest opaque.\<close>

record chart =
  ch_KubeVersion :: string
  ch_body :: string

type_synonym vals = string
type_synonym Values = string

record Manifest =
  man_Name :: string
  man_Content :: string

text \<open>\<open>runtime.Object\<close> is opaque to main.go: it is only serialized and classified.\<close>

type_synonym object = string

text \<open>\<open>resource.Info\<close>: identity, the export flag and the decoded body.\<close>

record Info =
  info_Group :: string
  info_Version :: string
  info_Kind :: string
  info_Namespace :: string
  info_Name :: string
  info_Export :: bool
  info_Object :: object

text \<open>
  The dynamic type of the object \<open>kube.AsVersioned\<close> returns: a
  \<open>runtime.Unstructured\<close> (no compiled type is registered for the resource), an
  \<open>*apiextv1.CustomResourceDefinition\<close> (a custom resource definition of API version
  apiextensions.k8s.io/v1), an \<open>*apiextv1beta1.CustomResourceDefinition\<close> (a custom
  resource definition of API version apiextensions.k8s.io/v1beta1, which the pinned
  k8s.io v0.18.8 still serves and helm registers), or any other compiled type.
\<close>

datatype versioned =
    Unstructured object
  | CustomResourceDefinition object
  | CustomResourceDefinition_v1beta1 object
  | Typed object

type_synonym PatchMeta = string

datatype PatchType = JSONPatchType | MergePatchType | StrategicMergePatchType | ApplyPatchType

text \<open>
  Every call main.go issues to a collaborator that reads files, the release storage or
  the cluster, or whose arguments a property is about, is recorded as a \<open>call\<close>, in
  the order issued (the pure serialization and patch functions are not recorded).
  \<open>Log\<close> is a line written through \<open>c.Log\<close>, with the format and its arguments. The last four constructors are the
  writing operations that \<open>resource.Helper\<close> offers beside \<open>Get\<close>; main.go has the
  helper in hand at both fetches.
\<close>

datatype call =
    MergeValues
  | LoaderLoad string
  | Init
  | IsReachable
  | ReleasesLast string
  | ReleasesDeployed string
  | ProcessDependencies
  | ToDiscoveryClient
  | Invalidate
  | ServerVersion
  | GetVersionSet
  | ToRenderValues ReleaseOptions
  | ToRESTConfig
  | RenderWithClient Values
  | Build string
  | HelperGet Info
  | Log string "error list"
  | HelperCreate Info
  | HelperPatch Info bytes
  | HelperReplace Info
  | HelperDelete Info

text \<open>
  The collaborators: what each library call returns. \<open>helper_Get calls info\<close> is the
  answer of the cluster to the lookup \<open>helper.Get\<close> of \<open>info\<close> issued after the calls
  \<open>calls\<close>: every lookup is a request of its own, and two lookups of one resource may
  be answered differently (the resource is created or deleted in between, a request
  fails).
\<close>

record env =
  ValidName_MatchString :: "string \<Rightarrow> bool"
  valueOpts_MergeValues :: "error + vals"
  loader_Load :: "string \<Rightarrow> error + chart"
  actionConfig_Init :: "error option"
  KubeClient_IsReachable :: "error option"
  KubeClient_Build :: "string \<Rightarrow> error + Info list"
  Releases_Last :: "string \<Rightarrow> error + release"
  Releases_Deployed :: "string \<Rightarrow> error + release"
  chartutil_ProcessDependencies :: "chart \<Rightarrow> vals \<Rightarrow> error + chart"
  chartutil_ToRenderValues :: "chart \<Rightarrow> vals \<Rightarrow> ReleaseOptions \<Rightarrow> Capabilities \<Rightarrow> error + Values"
  chartutil_IsCompatibleRange :: "string \<Rightarrow> string \<Rightarrow> bool"
  RESTClientGetter_ToDiscoveryClient :: "error option"
  RESTClientGetter_ToRESTConfig :: "error option"
  dc_ServerVersion :: "error + version_Info"
  action_GetVersionSet :: "string list \<times> error option"
  discovery_IsGroupDiscoveryFailedError :: "error \<Rightarrow> bool"
  engine_RenderWithClient :: "chart \<Rightarrow> Values \<Rightarrow> error + (string \<rightharpoonup> string)"
  releaseutil_SortManifests :: "(string \<rightharpoonup> string) \<Rightarrow> string list \<Rightarrow> error + Manifest list"
  helper_Get :: "call list \<Rightarrow> Info \<Rightarrow> error + object"
  marshal_object :: "object \<Rightarrow> error + bytes"
  kube_AsVersioned :: "Info \<Rightarrow> versioned"
  strategicpatch_NewPatchMetaFromStruct :: "versioned \<Rightarrow> error + PatchMeta"
  jsonpatch_CreateMergePatch :: "bytes \<Rightarrow> bytes \<Rightarrow> error + bytes"
  strategicpatch_CreateThreeWayMergePatch ::
    "bytes \<Rightarrow> bytes \<Rightarrow> bytes \<Rightarrow> PatchMeta \<Rightarrow> bool \<Rightarrow> error + bytes"

section \<open>validateReleaseName\<close>

text \<open>main.go 331-342. \<open>None\<close> is the nil error.\<close>

definition validateReleaseName :: "env \<Rightarrow> string \<Rightarrow> error option" where
  "validateReleaseName E releaseName =
     (if releaseName = '''' then Some (Errorf ''no release name set'' [])
      else if length releaseName > 53 \<or> \<not> ValidName_MatchString E releaseName
      then Some (Errorf ''invalid release name: %s'' [releaseName])
      else None)"

section \<open>createPatch\<close>

text \<open>
  \<open>json.Marshal\<close> of a \<open>runtime.Object\<close> interface value: the nil interface marshals to
  \<open>null\<close> without error (main.go 298), anything else as the library decides.
\<close>

definition json_Marshal :: "env \<Rightarrow> object option \<Rightarrow> error + bytes" where
  "json_Marshal E obj = (case obj of None \<Rightarrow> Inr ''null'' | Some x \<Rightarrow> marshal_object E x)"

text \<open>main.go 311: the type assertion to \<open>runtime.Unstructured\<close>.\<close>

definition isUnstructured :: "versioned \<Rightarrow> bool" where
  "isUnstructured v = (case v of Unstructured _ \<Rightarrow> True | _ \<Rightarrow> False)"

text \<open>main.go 314: the type assertion to \<open>*apiextv1.CustomResourceDefinition\<close>.\<close>

definition isCRD :: "versioned \<Rightarrow> bool" where
  "isCRD v = (case v of CustomResourceDefinition _ \<Rightarrow> True | _ \<Rightarrow> False)"

text \<open>
  \<open>helper.Get(info.Namespace, info.Name, info.Export)\<close>, issued after the given calls,
  returns (object, error): the object is nil when there is an error.
\<close>

definition Get_obj :: "env \<Rightarrow> call list \<Rightarrow> Info \<Rightarrow> object option" where
  "Get_obj E calls info = (case helper_Get E calls info of Inl e \<Rightarrow> None | Inr obj \<Rightarrow> Some obj)"

definition Get_err :: "env \<Rightarrow> call list \<Rightarrow> Info \<Rightarrow> error option" where
  "Get_err E calls info = (case helper_Get E calls info of Inl e \<Rightarrow> Some e | Inr obj \<Rightarrow> None)"

text \<open>
  A library call returning \<open>([]byte, error)\<close>: the nil slice (empty) comes with the error.
\<close>

definition patch_result :: "PatchType \<Rightarrow> error + bytes \<Rightarrow> bytes \<times> PatchType \<times> error option" where
  "patch_result t r = (case r of Inl e \<Rightarrow> ([], t, Some e) | Inr p \<Rightarrow> (p, t, None))"

text \<open>
  main.go 281-329. The first argument is the body of the matching resource of the
  original manifest (the Go parameter is named \<open>current\<close>); the live object is fetched
  inside, by a lookup issued after the calls so far, which appends \<open>HelperGet target\<close>
  to them. The result is Go's triple (patch, patch type, error) and the calls so far.
\<close>

definition createPatch ::
  "env \<Rightarrow> object \<Rightarrow> Info \<Rightarrow> call list \<Rightarrow> (bytes \<times> PatchType \<times> error option) \<times> call list" where
  "createPatch E current target calls =
     (case json_Marshal E (Some current) of
        Inl e \<Rightarrow> (([], StrategicMergePatchType, Some (Wrap e ''serializing current configuration'' [])), calls)
      | Inr oldData \<Rightarrow>
     (case json_Marshal E (Some (info_Object target)) of
        Inl e \<Rightarrow> (([], StrategicMergePatchType, Some (Wrap e ''serializing target configuration'' [])), calls)
      | Inr newData \<Rightarrow>
     (let currentObj = Get_obj E calls target;
          err = Get_err E calls target;
          calls1 = calls @ [HelperGet target] in
      if err \<noteq> None \<and> \<not> IsNotFound err
      then (([], StrategicMergePatchType,
              Some (Wrap (the err) ''unable to get data for current object %s/%s''
                      [info_Namespace target, info_Name target])), calls1)
      else
     (case json_Marshal E currentObj of
        Inl e \<Rightarrow> (([], StrategicMergePatchType, Some (Wrap e ''serializing live configuration'' [])), calls1)
      | Inr currentData \<Rightarrow>
     (let versionedObject = kube_AsVersioned E target in
      if isUnstructured versionedObject \<or> isCRD versionedObject
      then (patch_result MergePatchType (jsonpatch_CreateMergePatch E oldData newData), calls1)
      else
     (case strategicpatch_NewPatchMetaFromStruct E versionedObject of
        Inl e \<Rightarrow> (([], StrategicMergePatchType, Some (Wrap e ''unable to create patch metadata from object'' [])), calls1)
      | Inr patchMeta \<Rightarrow>
          (patch_result StrategicMergePatchType
             (strategicpatch_CreateThreeWayMergePatch E oldData newData currentData patchMeta True),
           calls1)))))))"

section \<open>getCapabilities and renderResources\<close>

text \<open>
  The part of \<open>action.Configuration\<close> that main.go mutates (the cached capabilities),
  with the calls issued so far.
\<close>

record conf =
  conf_Capabilities :: "Capabilities option"
  conf_calls :: "call list"

definition issue :: "call \<Rightarrow> conf \<Rightarrow> conf" where
  "issue x c = c\<lparr>conf_calls := conf_calls c @ [x]\<rparr>"

text \<open>main.go 199-237. Discovery runs only while no capabilities are cached.\<close>

definition getCapabilities :: "env \<Rightarrow> conf \<Rightarrow> error option \<times> conf" where
  "getCapabilities E c =
     (if conf_Capabilities c \<noteq> None then (None, c)
      else
     (let c1 = issue ToDiscoveryClient c in
      case RESTClientGetter_ToDiscoveryClient E of
        Some e \<Rightarrow> (Some (Wrap e ''could not get Kubernetes discovery client'' []), c1)
      | None \<Rightarrow>
     (let c2 = issue Invalidate c1;
          c3 = issue ServerVersion c2 in
      case dc_ServerVersion E of
        Inl e \<Rightarrow> (Some (Wrap e ''could not get server version from Kubernetes'' []), c3)
      | Inr kubeVersion \<Rightarrow>
     (let c4 = issue GetVersionSet c3;
          apiVersions = fst (action_GetVersionSet E);
          store = (\<lambda>c'. (None, c'\<lparr>conf_Capabilities := Some
                     \<lparr>cap_APIVersions = apiVersions,
                      cap_KubeVersion = \<lparr>kv_Version = vi_GitVersion kubeVersion,
                                         kv_Major = vi_Major kubeVersion,
                                         kv_Minor = vi_Minor kubeVersion\<rparr>\<rparr>\<rparr>)) in
      case snd (action_GetVersionSet E) of
        None \<Rightarrow> store c4
      | Some e \<Rightarrow>
          if discovery_IsGroupDiscoveryFailedError E e
          then store (issue (Log ''WARNING: To fix this, kubectl delete apiservice <service-name>'' [])
                 (issue (Log ''WARNING: The Kubernetes server has an orphaned API service. Server reports: %s'' [e]) c4))
          else (Some (Wrap e ''could not get apiVersions from Kubernetes'' []), c4)))))"

text \<open>\<open>strings.HasSuffix\<close>.\<close>

definition strings_HasSuffix :: "string \<Rightarrow> string \<Rightarrow> bool" where
  "strings_HasSuffix s suffix =
     (length suffix \<le> length s \<and> drop (length s - length suffix) s = suffix)"

text \<open>The loop of main.go 274-276 writing each manifest into the buffer.\<close>

fun write_manifests :: "string \<Rightarrow> Manifest list \<Rightarrow> string" where
  "write_manifests b [] = b"
| "write_manifests b (m # ms) =
     write_manifests
       (b @ ''---'' @ [CHR 0x0A] @ ''# Source: '' @ man_Name m @ [CHR 0x0A] @ man_Content m @ [CHR 0x0A]) ms"

text \<open>
  main.go 239-279. \<open>KubeVersion.String()\<close> is the version string. The buffer is
  returned beside the error; it is empty on every error path. Reading the capabilities
  through a nil pointer would panic.
\<close>

definition renderResources :: "env \<Rightarrow> chart \<Rightarrow> Values \<Rightarrow> conf \<Rightarrow> (string \<times> error option) \<times> conf" where
  "renderResources E ch values c =
     (case getCapabilities E c of
        (Some e, c1) \<Rightarrow> (([], Some e), c1)
      | (None, c1) \<Rightarrow>
     (case conf_Capabilities c1 of
        None \<Rightarrow> (([], Some (Panic ''nil pointer dereference'')), c1)
      | Some caps \<Rightarrow>
     (if ch_KubeVersion ch \<noteq> [] \<and>
         \<not> chartutil_IsCompatibleRange E (ch_KubeVersion ch) (kv_Version (cap_KubeVersion caps))
      then (([], Some (Errorf ''chart requires kubeVersion: %s which is incompatible with Kubernetes %s''
                          [ch_KubeVersion ch, kv_Version (cap_KubeVersion caps)])), c1)
      else
     (let c2 = issue ToRESTConfig c1 in
      case RESTClientGetter_ToRESTConfig E of
        Some e \<Rightarrow> (([], Some e), c2)
      | None \<Rightarrow>
     (let c3 = issue (RenderWithClient values) c2 in
      case engine_RenderWithClient E ch values of
        Inl e \<Rightarrow> (([], Some e), c3)
      | Inr files \<Rightarrow>
     (let files' = (\<lambda>k. if strings_HasSuffix k ''NOTES.txt'' then None else files k) in
      case releaseutil_SortManifests E files' (cap_APIVersions caps) of
        Inl e \<Rightarrow> (([], Some e), c3)
      | Inr manifests \<Rightarrow> ((write_manifests [] manifests, None), c3)))))))"

section \<open>prepareUpgrade\<close>

text \<open>
  main.go 150-165: the release whose manifest is the original state, given the last
  release. \<open>Releases.Deployed\<close> is asked only when the last release is not deployed.
\<close>

definition currentRelease :: "env \<Rightarrow> string \<Rightarrow> release \<Rightarrow> conf \<Rightarrow> (error + release) \<times> conf" where
  "currentRelease E name lastRelease c =
     (if rel_Status lastRelease = StatusDeployed then (Inr lastRelease, c)
      else
     (let c1 = issue (ReleasesDeployed name) c in
      case Releases_Deployed E name of
        Inr r \<Rightarrow> (Inr r, c1)
      | Inl err \<Rightarrow>
          if errors_Is err ErrNoDeployedReleases \<and>
             (rel_Status lastRelease = StatusFailed \<or> rel_Status lastRelease = StatusSuperseded)
          then (Inr lastRelease, c1)
          else (Inl err, c1)))"

text \<open>main.go 171-180: the options handed to \<open>chartutil.ToRenderValues\<close>.\<close>

definition releaseOptions :: "string \<Rightarrow> release \<Rightarrow> release \<Rightarrow> ReleaseOptions" where
  "releaseOptions name lastRelease cur =
     (let revision = rel_Version lastRelease + 1 in
      \<lparr>opt_Name = name, opt_Namespace = rel_Namespace cur, opt_Revision = revision,
       opt_IsUpgrade = True, opt_IsInstall = False\<rparr>)"

text \<open>
  main.go 135-196. The chart is a pointer (\<open>None\<close> is nil). On success the result is the
  pair (manifest of the current release, rendered manifest); on every error path Go
  returns two empty strings beside the error, so the error alone is kept.
\<close>

definition prepareUpgrade ::
  "env \<Rightarrow> string \<Rightarrow> chart option \<Rightarrow> vals \<Rightarrow> conf \<Rightarrow> (error + string \<times> string) \<times> conf" where
  "prepareUpgrade E name chart vals c =
     (case chart of
        None \<Rightarrow> (Inl (ErrorsNew ''missing chart''), c)
      | Some ch \<Rightarrow>
     (let c1 = issue (ReleasesLast name) c in
      case Releases_Last E name of
        Inl err \<Rightarrow>
          if errors_Is err ErrReleaseNotFound then (Inl (NewErrNoDeployedReleases name), c1)
          else (Inl err, c1)
      | Inr lastRelease \<Rightarrow>
     (case currentRelease E name lastRelease c1 of
        (Inl err, c2) \<Rightarrow> (Inl err, c2)
      | (Inr cur, c2) \<Rightarrow>
     (let c3 = issue ProcessDependencies c2 in
      case chartutil_ProcessDependencies E ch vals of
        Inl err \<Rightarrow> (Inl err, c3)
      | Inr ch' \<Rightarrow>
     (let options = releaseOptions name lastRelease cur in
      case getCapabilities E c3 of
        (Some err, c4) \<Rightarrow> (Inl err, c4)
      | (None, c4) \<Rightarrow>
     (case conf_Capabilities c4 of
        None \<Rightarrow> (Inl (Panic ''nil pointer dereference''), c4)
      | Some caps \<Rightarrow>
     (let c5 = issue (ToRenderValues options) c4 in
      case chartutil_ToRenderValues E ch' vals options caps of
        Inl err \<Rightarrow> (Inl err, c5)
      | Inr valuesToRender \<Rightarrow>
     (case renderResources E ch' valuesToRender c5 of
        ((_, Some err), c6) \<Rightarrow> (Inl err, c6)
      | ((manifestDoc, None), c6) \<Rightarrow> (Inr (rel_Manifest cur, manifestDoc), c6)))))))))"

section \<open>createPatchset\<close>

text \<open>
  \<open>isMatchingInfo\<close> (helm.sh/helm/v3 v3.3.1, pkg/kube/resource.go): two infos match
  when name, namespace and kind are equal; group and version are not compared.
\<close>

definition isMatchingInfo :: "Info \<Rightarrow> Info \<Rightarrow> bool" where
  "isMatchingInfo a b =
     (info_Name a = info_Name b \<and> info_Namespace a = info_Namespace b \<and> info_Kind a = info_Kind b)"

text \<open>
  \<open>ResourceList.Get\<close> (same file): the first element of the list that matches the
  given info, or nil.
\<close>

definition ResourceList_Get :: "Info list \<Rightarrow> Info \<Rightarrow> Info option" where
  "ResourceList_Get r info = find (\<lambda>i. isMatchingInfo i info) r"

text \<open>
  \<open>ResourceList.Visit\<close>: the function is applied to each element in order, with a nil
  error, and the first error it returns ends the traversal and is returned.
\<close>

fun Visit :: "(Info \<Rightarrow> error option \<Rightarrow> 's \<Rightarrow> error option \<times> 's) \<Rightarrow> Info list \<Rightarrow> 's \<Rightarrow> error option \<times> 's" where
  "Visit fn [] s = (None, s)"
| "Visit fn (i # r) s =
     (case fn i None s of
        (Some err, s') \<Rightarrow> (Some err, s')
      | (None, s') \<Rightarrow> Visit fn r s')"

text \<open>
  The closure of main.go 106-130. Its state is the captured slice \<open>patches\<close> and the
  calls issued so far. The existence lookup of main.go 112 is issued after those calls;
  the lookup inside \<open>createPatch\<close> is a later request, issued after it.
\<close>

definition visitFn ::
  "env \<Rightarrow> Info list \<Rightarrow> Info \<Rightarrow> error option \<Rightarrow> string list \<times> call list \<Rightarrow> error option \<times> (string list \<times> call list)" where
  "visitFn E original info err s =
     (case s of (patches, calls) \<Rightarrow>
     (case err of
        Some e \<Rightarrow> (Some e, (patches, calls))
      | None \<Rightarrow>
     (let err1 = Get_err E calls info;
          calls1 = calls @ [HelperGet info] in
      if IsNotFound err1
      then (None, (patches, calls1))
      else
     (case ResourceList_Get original info of
        None \<Rightarrow> (Some (Errorf ''could not find %q'' [info_Name info]), (patches, calls1))
      | Some originalInfo \<Rightarrow>
     (case createPatch E (info_Object originalInfo) info calls1 of
        ((patch, _, Some e), calls2) \<Rightarrow> (Some e, (patches, calls2))
      | ((patch, _, None), calls2) \<Rightarrow> (None, (patches @ [patch], calls2)))))))"

text \<open>\<open>strings.Join\<close>.\<close>

fun strings_Join :: "string list \<Rightarrow> string \<Rightarrow> string" where
  "strings_Join [] sep = []"
| "strings_Join [x] sep = x"
| "strings_Join (x # y # xs) sep = x @ sep @ strings_Join (y # xs) sep"

text \<open>
  How a function of main.go ends: it returns, or \<open>log.Fatal\<close> ends the process.
\<close>

datatype 'a outcome = Fatal error | Returned 'a

text \<open>
  main.go 80-133. The configuration is created inside, with no capabilities cached.
  The result is Go's pair (patchset string, error): the string is built from the patches
  collected so far also when the traversal ended with an error.
\<close>

definition createPatchset ::
  "env \<Rightarrow> string \<Rightarrow> chart option \<Rightarrow> vals \<Rightarrow> call list \<Rightarrow> (string \<times> error option) outcome \<times> call list" where
  "createPatchset E name ch vals calls =
     (let c0 = issue Init \<lparr>conf_Capabilities = None, conf_calls = calls\<rparr> in
      case actionConfig_Init E of
        Some err \<Rightarrow> (Fatal err, conf_calls c0)
      | None \<Rightarrow>
     (let c1 = issue IsReachable c0 in
      case KubeClient_IsReachable E of
        Some err \<Rightarrow> (Returned ([], Some err), conf_calls c1)
      | None \<Rightarrow>
     (case prepareUpgrade E name ch vals c1 of
        (Inl err, c2) \<Rightarrow> (Returned ([], Some err), conf_calls c2)
      | (Inr (originalManifest, targetManifest), c2) \<Rightarrow>
     (let c3 = issue (Build originalManifest) c2 in
      case KubeClient_Build E originalManifest of
        Inl err \<Rightarrow>
          (Returned ([], Some (Wrap err ''unable to build kubernetes objects from original release manifest'' [])),
           conf_calls c3)
      | Inr original \<Rightarrow>
     (let c4 = issue (Build targetManifest) c3 in
      case KubeClient_Build E targetManifest of
        Inl err \<Rightarrow>
          (Returned ([], Some (Wrap err ''unable to build kubernetes objects from new release manifest'' [])),
           conf_calls c4)
      | Inr target \<Rightarrow>
     (case Visit (visitFn E original) target ([], conf_calls c4) of
        (err, (patches, calls')) \<Rightarrow>
          (Returned (''['' @ strings_Join patches '','' @ '']'', err), calls')))))))"

section \<open>main\<close>

text \<open>
  The \<open>RunE\<close> closure of main.go 45-69, on the two positional arguments that
  \<open>cobra.ExactArgs(2)\<close> guarantees. It prints the patchset and returns nil, or ends in
  \<open>log.Fatal\<close>.
\<close>

definition RunE :: "env \<Rightarrow> string \<Rightarrow> string \<Rightarrow> string outcome \<times> call list" where
  "RunE E name chartPath =
     (case validateReleaseName E name of
        Some err \<Rightarrow> (Fatal err, [])
      | None \<Rightarrow>
     (case valueOpts_MergeValues E of
        Inl err \<Rightarrow> (Fatal err, [MergeValues])
      | Inr vals \<Rightarrow>
     (case loader_Load E chartPath of
        Inl err \<Rightarrow> (Fatal err, [MergeValues, LoaderLoad chartPath])
      | Inr ch \<Rightarrow>
     (case createPatchset E name (Some ch) vals [MergeValues, LoaderLoad chartPath] of
        (Fatal err, calls) \<Rightarrow> (Fatal err, calls)
      | (Returned (patchset, Some err), calls) \<Rightarrow> (Fatal err, calls)
      | (Returned (patchset, None), calls) \<Rightarrow> (Returned patchset, calls)))))"

section \<open>Vocabulary of the properties\<close>

text \<open>
  A resource has a live counterpart, at the moment after the given calls, when a lookup
  issued then returns an object.
\<close>

definition live :: "env \<Rightarrow> call list \<Rightarrow> Info \<Rightarrow> bool" where
  "live E calls info = (case helper_Get E calls info of Inl e \<Rightarrow> False | Inr obj \<Rightarrow> True)"

text \<open>A resource has no live counterpart at any moment of the computation.\<close>

definition absent :: "env \<Rightarrow> Info \<Rightarrow> bool" where
  "absent E info = (\<forall>calls. \<not> live E calls info)"

text \<open>
  The cluster answers steadily when the answer to a lookup does not depend on the moment
  it is issued: nothing changes in the cluster and no request fails by chance during the
  computation.
\<close>

definition steady :: "env \<Rightarrow> bool" where
  "steady E = (\<forall>calls info. helper_Get E calls info = helper_Get E [] info)"


text \<open>The existence lookup of a resource, issued after the given calls, does not report NotFound.\<close>

definition found :: "env \<Rightarrow> Info \<times> call list \<Rightarrow> bool" where
  "found E x = (\<not> IsNotFound (Get_err E (snd x) (fst x)))"


text \<open>
  The fetches of the live object that the visit of a target resource issues: the
  existence lookup, and the lookup of \<open>createPatch\<close> unless the existence lookup reports
  NotFound, the original manifest has no match, or the body of the match or of the
  target does not serialize.
\<close>

definition visit_fetches :: "env \<Rightarrow> Info list \<Rightarrow> Info \<Rightarrow> call list \<Rightarrow> call list" where
  "visit_fetches E original t calls =
     (if IsNotFound (Get_err E calls t) then [HelperGet t]
      else case ResourceList_Get original t of
        None \<Rightarrow> [HelperGet t]
      | Some originalInfo \<Rightarrow>
          (case json_Marshal E (Some (info_Object originalInfo)) of
             Inl e \<Rightarrow> [HelperGet t]
           | Inr oldData \<Rightarrow>
              (case json_Marshal E (Some (info_Object t)) of
                 Inl e \<Rightarrow> [HelperGet t]
               | Inr newData \<Rightarrow> [HelperGet t, HelperGet t])))"

text \<open>The resource is classified schemaless by main.go 311-316.\<close>

definition schemaless :: "env \<Rightarrow> Info \<Rightarrow> bool" where
  "schemaless E target =
     (isUnstructured (kube_AsVersioned E target) \<or> isCRD (kube_AsVersioned E target))"

text \<open>The calls that write to the cluster; every other call only reads.\<close>

fun mutating :: "call \<Rightarrow> bool" where
  "mutating (HelperCreate i) = True"
| "mutating (HelperPatch i p) = True"
| "mutating (HelperReplace i) = True"
| "mutating (HelperDelete i) = True"
| "mutating x = False"

text \<open>
  The cluster after a sequence of calls, for a given effect of each call on the cluster.
\<close>

definition cluster_after :: "(call \<Rightarrow> 'c \<Rightarrow> 'c) \<Rightarrow> call list \<Rightarrow> 'c \<Rightarrow> 'c" where
  "cluster_after effect calls cl = fold effect calls cl"

text \<open>The calls that capability discovery (\<open>getCapabilities\<close>) can issue.\<close>

definition discovery_calls :: "call set" where
  "discovery_calls = {ToDiscoveryClient, Invalidate, ServerVersion, GetVersionSet} \<union> range (\<lambda>(f, a). Log f a)"

text \<open>The render contexts handed to \<open>chartutil.ToRenderValues\<close>, in call order.\<close>

fun render_contexts :: "call list \<Rightarrow> ReleaseOptions list" where
  "render_contexts [] = []"
| "render_contexts (ToRenderValues options # xs) = options # render_contexts xs"
| "render_contexts (x # xs) = render_contexts xs"

text \<open>The number of fetches of the live object of a resource among the calls.\<close>

definition fetches :: "Info \<Rightarrow> call list \<Rightarrow> nat" where
  "fetches info calls = length (filter (\<lambda>x. x = HelperGet info) calls)"

section \<open>The patch libraries on JSON objects\<close>

text \<open>
  Not part of main.go: the documented algorithms of the two patch libraries, on JSON
  documents that are objects whose members are scalars or objects again (lists and the
  per-field patch strategies are outside this model; nested objects are merged, which is
  the default strategy). A scalar is kept in its serialized form. An object is a list of
  members read as a map (the first member of a key counts).
\<close>

datatype json = Atom string | Obj "(string \<times> json) list"

definition keys :: "(string \<times> 'a) list \<Rightarrow> string list" where
  "keys ms = remdups (map fst ms)"

text \<open>
  \<open>diffMaps\<close> (k8s.io/apimachinery v0.18.8, strategicpatch/patch.go): the patch that
  turns \<open>original\<close> into \<open>modified\<close>. With \<open>changes\<close> (\<open>IgnoreChangesAndAdditions\<close>
  not set) it holds the members of \<open>modified\<close> that \<open>original\<close> lacks or has with
  another value, nested objects being compared member by member; with \<open>deletions\<close>
  (\<open>IgnoreDeletions\<close> not set) it holds null for the members only \<open>original\<close> has.
  \<open>getDiff\<close> of github.com/evanphx/json-patch is the same function with both set.
\<close>

function diffMaps :: "bool \<Rightarrow> bool \<Rightarrow> (string \<times> json) list \<Rightarrow> (string \<times> json) list \<Rightarrow> (string \<times> json) list" where
  "diffMaps changes deletions original modified =
     concat (map (\<lambda>key.
        case map_of modified key of
          None \<Rightarrow> []
        | Some modifiedValue \<Rightarrow>
           (case map_of original key of
              None \<Rightarrow> if changes then [(key, modifiedValue)] else []
            | Some originalValue \<Rightarrow>
               (case originalValue of
                  Obj originalTyped \<Rightarrow>
                    (case modifiedValue of
                       Obj modifiedTyped \<Rightarrow>
                         (let patchValue = diffMaps changes deletions originalTyped modifiedTyped
                          in if patchValue = [] then [] else [(key, Obj patchValue)])
                     | Atom b \<Rightarrow> if changes then [(key, modifiedValue)] else [])
                | Atom a \<Rightarrow>
                    if changes \<and> originalValue \<noteq> modifiedValue then [(key, modifiedValue)] else [])))
       (keys modified))
     @ (if deletions
        then map (\<lambda>key. (key, Atom ''null'')) (filter (\<lambda>key. map_of modified key = None) (keys original))
        else [])"
  by pat_completeness auto
termination
proof (relation "measure (\<lambda>(c, d, orig, modi). size (Obj modi))")
  have aux: "size v < Suc (size_list (size_prod (\<lambda>x. 0) size) ms)"
    if "map_of ms k = Some v" for ms :: "(string \<times> json) list" and k v
    using that by (induction ms) (auto split: if_splits)
  show "wf (measure (\<lambda>(c, d, orig, modi). size (Obj modi)))" by simp
  show "((changes, deletions, originalTyped, modifiedTyped), (changes, deletions, original, modified))
          \<in> measure (\<lambda>(c, d, orig, modi). size (Obj modi))"
    if "map_of modified key = Some modifiedValue" "modifiedValue = Obj modifiedTyped"
    for changes deletions original modified key modifiedValue originalTyped modifiedTyped
    using aux[of modified key modifiedValue] that by simp
qed

declare diffMaps.simps [simp del]

text \<open>
  \<open>mergeMap\<close> (same file): the patch \<open>patch\<close> merged into \<open>original\<close>; the members of
  both are kept, a member of \<open>patch\<close> wins, and two objects under one key are merged.
\<close>

function mergeMap :: "(string \<times> json) list \<Rightarrow> (string \<times> json) list \<Rightarrow> (string \<times> json) list" where
  "mergeMap original patch =
     map (\<lambda>key.
        (key, case map_of patch key of
                None \<Rightarrow> (case map_of original key of None \<Rightarrow> Atom ''null'' | Some originalValue \<Rightarrow> originalValue)
              | Some patchValue \<Rightarrow>
                 (case patchValue of
                    Obj patchTyped \<Rightarrow>
                      (case map_of original key of
                         Some (Obj originalTyped) \<Rightarrow> Obj (mergeMap originalTyped patchTyped)
                       | _ \<Rightarrow> patchValue)
                  | Atom a \<Rightarrow> patchValue)))
       (remdups (map fst original @ map fst patch))"
  by pat_completeness auto
termination
proof (relation "measure (\<lambda>(orig, patch). size (Obj patch))")
  have aux: "size v < Suc (size_list (size_prod (\<lambda>x. 0) size) ms)"
    if "map_of ms k = Some v" for ms :: "(string \<times> json) list" and k v
    using that by (induction ms) (auto split: if_splits)
  show "wf (measure (\<lambda>(orig, patch). size (Obj patch)))" by simp
  show "((originalTyped, patchTyped), (original, patch)) \<in> measure (\<lambda>(orig, patch). size (Obj patch))"
    if "map_of patch key = Some patchValue" "patchValue = Obj patchTyped"
    for original patch key patchValue patchTyped originalTyped
    using aux[of patch key patchValue] that by simp
qed

declare mergeMap.simps [simp del]

text \<open>
  The three-way merge decodes an empty input as the empty object (it unmarshals only
  when \<open>len(original) > 0\<close>).
\<close>

definition decode_input :: "(bytes \<Rightarrow> (string \<times> json) list option) \<Rightarrow> bytes \<Rightarrow> (string \<times> json) list option" where
  "decode_input decode s = (if s = [] then Some [] else decode s)"

text \<open>
  \<open>strategicpatch.CreateThreeWayMergePatch\<close>, for a given JSON decoder and encoder: the
  patch is the difference from current to modified without deletions, merged into the
  deletions from original to modified. (The conflict check made when \<open>overwrite\<close> is
  false is outside this model; main.go passes true.)
\<close>

definition k8s_CreateThreeWayMergePatch ::
  "(bytes \<Rightarrow> (string \<times> json) list option) \<Rightarrow> ((string \<times> json) list \<Rightarrow> bytes) \<Rightarrow>
   bytes \<Rightarrow> bytes \<Rightarrow> bytes \<Rightarrow> PatchMeta \<Rightarrow> bool \<Rightarrow> error + bytes" where
  "k8s_CreateThreeWayMergePatch decode encode original modified current schema overwrite =
     (case decode_input decode original of
        None \<Rightarrow> Inl (LibError ''Invalid JSON document'')
      | Some originalMap \<Rightarrow>
     (case decode_input decode modified of
        None \<Rightarrow> Inl (LibError ''Invalid JSON document'')
      | Some modifiedMap \<Rightarrow>
     (case decode_input decode current of
        None \<Rightarrow> Inl (LibError ''Invalid JSON document'')
      | Some currentMap \<Rightarrow>
     (let deltaMap = diffMaps True False currentMap modifiedMap;
          deletionsMap = diffMaps False True originalMap modifiedMap;
          patchMap = mergeMap deletionsMap deltaMap
      in Inr (encode patchMap)))))"

text \<open>\<open>jsonpatch.CreateMergePatch\<close> on two objects, for a given decoder and encoder.\<close>

definition evanphx_CreateMergePatch ::
  "(bytes \<Rightarrow> (string \<times> json) list option) \<Rightarrow> ((string \<times> json) list \<Rightarrow> bytes) \<Rightarrow>
   bytes \<Rightarrow> bytes \<Rightarrow> error + bytes" where
  "evanphx_CreateMergePatch decode encode originalJSON modifiedJSON =
     (case decode originalJSON of
        None \<Rightarrow> Inl (LibError ''Invalid JSON Document'')
      | Some originalDoc \<Rightarrow>
     (case decode modifiedJSON of
        None \<Rightarrow> Inl (LibError ''Invalid JSON Document'')
      | Some modifiedDoc \<Rightarrow> Inr (encode (diffMaps True True originalDoc modifiedDoc))))"

text \<open>
  The live object has everything the manifest declares: every member of \<open>declared\<close>
  is a member of \<open>observed\<close> with the same value, objects being compared member by
  member; members that only \<open>observed\<close> has do not count.
\<close>

function contained :: "(string \<times> json) list \<Rightarrow> (string \<times> json) list \<Rightarrow> bool" where
  "contained declared observed =
     list_all (\<lambda>key.
        case map_of declared key of
          None \<Rightarrow> True
        | Some declaredValue \<Rightarrow>
           (case map_of observed key of
              None \<Rightarrow> False
            | Some liveValue \<Rightarrow>
               (case liveValue of
                  Obj liveTyped \<Rightarrow>
                    (case declaredValue of
                       Obj declaredTyped \<Rightarrow> contained declaredTyped liveTyped
                     | Atom b \<Rightarrow> False)
                | Atom a \<Rightarrow> liveValue = declaredValue)))
       (keys declared)"
  by pat_completeness auto
termination
proof (relation "measure (\<lambda>(d, l). size (Obj d))")
  have aux: "size v < Suc (size_list (size_prod (\<lambda>x. 0) size) ms)"
    if "map_of ms k = Some v" for ms :: "(string \<times> json) list" and k v
    using that by (induction ms) (auto split: if_splits)
  show "wf (measure (\<lambda>(d, l). size (Obj d)))" by simp
  show "((declaredTyped, liveTyped), (declared, observed)) \<in> measure (\<lambda>(d, l). size (Obj d))"
    if "map_of declared key = Some declaredValue" "declaredValue = Obj declaredTyped"
    for declared observed key declaredValue declaredTyped liveTyped
    using aux[of declared key declaredValue] that by simp
qed

declare contained.simps [simp del]

section \<open>A concrete library for the examples\<close>

text \<open>
  Not part of main.go: a small instance of the collaborators, on which the examples
  below run. Its JSON encoder writes objects without white space, in member order; its
  decoder reads flat objects \<open>{"k":v,...}\<close> with scalar values, and \<open>null\<close> as the
  empty object.
\<close>

fun encode_value :: "json \<Rightarrow> bytes" where
  "encode_value (Atom a) = a"
| "encode_value (Obj ms) =
     ''{'' @ strings_Join (map (\<lambda>m. [CHR 0x22] @ fst m @ [CHR 0x22] @ '':'' @ encode_value (snd m)) ms) '','' @ ''}''"

definition encode_object :: "(string \<times> json) list \<Rightarrow> bytes" where
  "encode_object ms = encode_value (Obj ms)"

fun split_on :: "char \<Rightarrow> string \<Rightarrow> string list" where
  "split_on c [] = [[]]"
| "split_on c (x # xs) =
     (if x = c then [] # split_on c xs
      else (case split_on c xs of [] \<Rightarrow> [[x]] | y # ys \<Rightarrow> (x # y) # ys))"

definition decode_member :: "string \<Rightarrow> (string \<times> json) option" where
  "decode_member s =
     (case split_on CHR '':'' s of
        [k, v] \<Rightarrow>
          if 2 \<le> length k \<and> hd k = CHR 0x22 \<and> last k = CHR 0x22 \<and> v \<noteq> []
          then Some (butlast (tl k), Atom v) else None
      | _ \<Rightarrow> None)"

fun decode_members :: "string list \<Rightarrow> (string \<times> json) list option" where
  "decode_members [] = Some []"
| "decode_members (s # ss) =
     (case (decode_member s, decode_members ss) of
        (Some m, Some ms) \<Rightarrow> Some (m # ms)
      | _ \<Rightarrow> None)"

definition decode_flat :: "bytes \<Rightarrow> (string \<times> json) list option" where
  "decode_flat s =
     (if s = ''null'' \<or> s = ''{}'' then Some []
      else if 2 \<le> length s \<and> hd s = CHR ''{'' \<and> last s = CHR ''}''
      then decode_members (split_on CHR '','' (butlast (tl s)))
      else None)"

text \<open>The document \<open>{"replicas":n}\<close>.\<close>

definition replicas :: "string \<Rightarrow> bytes" where
  "replicas n = encode_object [(''replicas'', Atom n)]"

text \<open>A resource of group \<open>apps\<close>, version \<open>v1\<close>, in namespace \<open>default\<close>.\<close>

definition resource :: "string \<Rightarrow> string \<Rightarrow> object \<Rightarrow> Info" where
  "resource kind name body =
     \<lparr>info_Group = ''apps'', info_Version = ''v1'', info_Kind = kind,
      info_Namespace = ''default'', info_Name = name, info_Export = False, info_Object = body\<rparr>"

text \<open>A custom resource definition of the given API version of apiextensions.k8s.io.\<close>

definition crd :: "string \<Rightarrow> string \<Rightarrow> object \<Rightarrow> Info" where
  "crd version name body =
     \<lparr>info_Group = ''apiextensions.k8s.io'', info_Version = version, info_Kind = ''CustomResourceDefinition'',
      info_Namespace = [], info_Name = name, info_Export = False, info_Object = body\<rparr>"

text \<open>
  Release \<open>foo\<close>, revision 1, deployed in namespace \<open>default\<close> with one deployment of one
  replica.
\<close>

definition foo_release :: release where
  "foo_release =
     \<lparr>rel_Name = ''foo'', rel_Status = StatusDeployed, rel_Manifest = replicas ''1'',
      rel_Namespace = ''default'', rel_Version = 1\<rparr>"

text \<open>The manifest text that rendering with replica count \<open>n\<close> produces.\<close>

definition rendered :: "string \<Rightarrow> string" where
  "rendered n = write_manifests [] [\<lparr>man_Name = ''foo/templates/deployment.yaml'', man_Content = replicas n\<rparr>]"

text \<open>
  The example collaborators: the release storage holds \<open>foo_release\<close>; the chart renders
  one deployment whose replica count is the override value, and a notes file; the
  cluster holds, at every moment, an object of one replica for every resource named
  \<open>foo\<close> and nothing else; objects are kept in serialized form; a \<open>Deployment\<close> has a
  compiled type, a \<open>CustomResourceDefinition\<close> the type of its API version, anything
  else is unstructured; the patch libraries are the ones above.
\<close>

definition example_env :: env where
  "example_env =
     \<lparr>ValidName_MatchString = (\<lambda>s. s \<noteq> [] \<and> list_all (\<lambda>c. c \<in> set ''abcdefghijklmnopqrstuvwxyz0123456789'') s),
      valueOpts_MergeValues = Inr ''3'',
      loader_Load = (\<lambda>path. Inr \<lparr>ch_KubeVersion = [], ch_body = path\<rparr>),
      actionConfig_Init = None,
      KubeClient_IsReachable = None,
      KubeClient_Build = (\<lambda>m.
        if m = replicas ''1'' then Inr [resource ''Deployment'' ''foo'' (replicas ''1'')]
        else if m = rendered ''1'' then Inr [resource ''Deployment'' ''foo'' (replicas ''1'')]
        else if m = rendered ''3'' then Inr [resource ''Deployment'' ''foo'' (replicas ''3'')]
        else Inl (LibError ''unable to decode'')),
      Releases_Last = (\<lambda>name. if name = ''foo'' then Inr foo_release else Inl ErrReleaseNotFound),
      Releases_Deployed = (\<lambda>name. if name = ''foo'' then Inr foo_release else Inl (NewErrNoDeployedReleases name)),
      chartutil_ProcessDependencies = (\<lambda>ch vals. Inr ch),
      chartutil_ToRenderValues = (\<lambda>ch vals options caps. Inr vals),
      chartutil_IsCompatibleRange = (\<lambda>constraint version. True),
      RESTClientGetter_ToDiscoveryClient = None,
      RESTClientGetter_ToRESTConfig = None,
      dc_ServerVersion = Inr \<lparr>vi_GitVersion = ''v1.18.8'', vi_Major = ''1'', vi_Minor = ''18''\<rparr>,
      action_GetVersionSet = ([''v1'', ''apps/v1''], None),
      discovery_IsGroupDiscoveryFailedError = (\<lambda>e. False),
      engine_RenderWithClient = (\<lambda>ch values. Inr (map_of
        [(''foo/templates/deployment.yaml'', replicas values), (''foo/templates/NOTES.txt'', ''installed'')])),
      releaseutil_SortManifests = (\<lambda>files apis. Inr (List.map_filter
        (\<lambda>k. map_option (\<lambda>content. \<lparr>man_Name = k, man_Content = content\<rparr>) (files k))
        [''foo/templates/NOTES.txt'', ''foo/templates/deployment.yaml''])),
      helper_Get = (\<lambda>calls info.
        if info_Name info = ''foo'' then Inr (replicas ''1'') else Inl (StatusError ''NotFound'')),
      marshal_object = (\<lambda>obj. Inr obj),
      kube_AsVersioned = (\<lambda>info.
        if info_Kind info = ''Deployment'' then Typed (info_Object info)
        else if info_Kind info = ''CustomResourceDefinition''
        then (if info_Version info = ''v1beta1'' then CustomResourceDefinition_v1beta1 (info_Object info)
              else CustomResourceDefinition (info_Object info))
        else Unstructured (info_Object info)),
      strategicpatch_NewPatchMetaFromStruct = (\<lambda>v. Inr ''meta''),
      jsonpatch_CreateMergePatch = evanphx_CreateMergePatch decode_flat encode_object,
      strategicpatch_CreateThreeWayMergePatch = k8s_CreateThreeWayMergePatch decode_flat encode_object\<rparr>"

text \<open>
  An effect of the calls on a cluster holding a list of resources: the four writing
  operations change it, every other call leaves it as it is.
\<close>

fun example_effect :: "call \<Rightarrow> Info list \<Rightarrow> Info list" where
  "example_effect (HelperCreate i) cl = i # cl"
| "example_effect (HelperPatch i p) cl = i\<lparr>info_Object := p\<rparr> # removeAll i cl"
| "example_effect (HelperReplace i) cl = i # removeAll i cl"
| "example_effect (HelperDelete i) cl = removeAll i cl"
| "example_effect x cl = cl"

text \<open>
  The chart of the upgrade renders a config map named \<open>foo\<close>, which is not in the
  original manifest; the cluster returns an object for every resource named \<open>foo\<close>.
\<close>

definition unmatched_env :: env where
  "unmatched_env = example_env\<lparr>KubeClient_Build := (\<lambda>m.
     if m = replicas ''1'' then Inr [resource ''Deployment'' ''foo'' (replicas ''1'')]
     else Inr [resource ''ConfigMap'' ''foo'' (replicas ''3'')])\<rparr>"

text \<open>
  The last release of \<open>foo\<close> is revision 3 and failed, in namespace \<open>staging\<close>; the
  deployed release is revision 2 in namespace \<open>default\<close>.
\<close>

definition failed_env :: env where
  "failed_env = example_env\<lparr>
     Releases_Last := (\<lambda>name. Inr (foo_release\<lparr>rel_Status := StatusFailed, rel_Namespace := ''staging'', rel_Version := 3\<rparr>)),
     Releases_Deployed := (\<lambda>name. Inr (foo_release\<lparr>rel_Version := 2\<rparr>))\<rparr>"

text \<open>
  The last release of \<open>foo\<close> is revision 3, a failed upgrade to two replicas; the
  deployed release is revision 2, with one replica.
\<close>

definition failed_upgrade_env :: env where
  "failed_upgrade_env = example_env\<lparr>
     Releases_Last := (\<lambda>name. Inr (foo_release\<lparr>rel_Status := StatusFailed, rel_Manifest := replicas ''2'', rel_Version := 3\<rparr>)),
     Releases_Deployed := (\<lambda>name. Inr (foo_release\<lparr>rel_Version := 2\<rparr>))\<rparr>"


text \<open>The last release of \<open>foo\<close> failed and no release of it is deployed.\<close>

definition failed_only_env :: env where
  "failed_only_env = example_env\<lparr>
     Releases_Last := (\<lambda>name. Inr (foo_release\<lparr>rel_Status := StatusFailed\<rparr>)),
     Releases_Deployed := (\<lambda>name. Inl (NewErrNoDeployedReleases name))\<rparr>"

text \<open>The last release of \<open>foo\<close> is pending and no release of it is deployed.\<close>

definition pending_env :: env where
  "pending_env = example_env\<lparr>
     Releases_Last := (\<lambda>name. Inr (foo_release\<lparr>rel_Status := ''pending-install''\<rparr>)),
     Releases_Deployed := (\<lambda>name. Inl (NewErrNoDeployedReleases name))\<rparr>"

text \<open>
  No override changes the chart (the replica count stays 1), and the live deployment
  has been scaled to 5 replicas out of band.
\<close>

definition drift_env :: env where
  "drift_env = example_env\<lparr>valueOpts_MergeValues := Inr ''1'',
     helper_Get := (\<lambda>calls info. Inr (replicas ''5''))\<rparr>"


text \<open>Every lookup is refused.\<close>

definition forbidden_env :: env where
  "forbidden_env = example_env\<lparr>helper_Get := (\<lambda>calls info. Inl (StatusError ''Forbidden''))\<rparr>"

text \<open>
  The live deployment has one replica at its first lookup and is scaled to 5 replicas
  before the second.
\<close>

definition scaled_env :: env where
  "scaled_env = example_env\<lparr>helper_Get := (\<lambda>calls info.
     if HelperGet info \<in> set calls then Inr (replicas ''5'') else Inr (replicas ''1''))\<rparr>"

text \<open>
  The chart of the upgrade renders the deployment \<open>foo\<close> and, after it, a config map
  \<open>foo\<close> that is not in the original manifest; the cluster returns an object for both.
\<close>

definition unmatched_second_env :: env where
  "unmatched_second_env = example_env\<lparr>KubeClient_Build := (\<lambda>m.
     if m = replicas ''1'' then Inr [resource ''Deployment'' ''foo'' (replicas ''1'')]
     else Inr [resource ''Deployment'' ''foo'' (replicas ''3''), resource ''ConfigMap'' ''foo'' (replicas ''3'')])\<rparr>"

text \<open>The document \<open>{"paused":true,"replicas":n}\<close>.\<close>

definition paused :: "string \<Rightarrow> bytes" where
  "paused n = encode_object [(''paused'', Atom ''true''), (''replicas'', Atom n)]"

text \<open>
  The deployed release declared the deployment \<open>foo\<close>, paused, in group \<open>extensions\<close>,
  version \<open>v1beta1\<close>; the chart of the upgrade renders it in group \<open>apps\<close>, version \<open>v1\<close>,
  with three replicas and not paused.
\<close>

definition regrouped_env :: env where
  "regrouped_env = example_env\<lparr>
     Releases_Last := (\<lambda>name. Inr (foo_release\<lparr>rel_Manifest := paused ''1''\<rparr>)),
     KubeClient_Build := (\<lambda>m.
       if m = paused ''1''
       then Inr [(resource ''Deployment'' ''foo'' (paused ''1''))\<lparr>info_Group := ''extensions'', info_Version := ''v1beta1''\<rparr>]
       else Inr [resource ''Deployment'' ''foo'' (replicas ''3'')])\<rparr>"

text \<open>The cluster returns an object of one replica for every resource.\<close>

definition crd_env :: env where
  "crd_env = example_env\<lparr>helper_Get := (\<lambda>calls info. Inr (replicas ''1''))\<rparr>"

section \<open>Basic facts\<close>

lemma issue_calls [simp]: "conf_calls (issue x c) = conf_calls c @ [x]"
  by (simp add: issue_def)

lemma issue_caps [simp]: "conf_Capabilities (issue x c) = conf_Capabilities c"
  by (simp add: issue_def)

lemmas example_defs =
  example_env_def foo_release_def resource_def crd_def replicas_def rendered_def
  encode_object_def decode_flat_def decode_input_def decode_member_def
  k8s_CreateThreeWayMergePatch_def evanphx_CreateMergePatch_def
  diffMaps.simps mergeMap.simps keys_def
  StatusDeployed_def StatusFailed_def StatusSuperseded_def

lemmas pipeline_defs =
  RunE_def validateReleaseName_def createPatchset_def prepareUpgrade_def currentRelease_def
  releaseOptions_def getCapabilities_def renderResources_def issue_def visitFn_def createPatch_def
  ResourceList_Get_def isMatchingInfo_def Get_err_def Get_obj_def json_Marshal_def patch_result_def
  isUnstructured_def isCRD_def strings_HasSuffix_def NewErrNoDeployedReleases_def List.map_filter_def Let_def

section \<open>The calls of each part of the pipeline\<close>

lemma getCapabilities_calls:
  "\<exists>xs. conf_calls (snd (getCapabilities E c)) = conf_calls c @ xs \<and> set xs \<subseteq> discovery_calls"
  by (auto simp: getCapabilities_def Let_def discovery_calls_def split: option.splits sum.splits)

lemma getCapabilities_cached:
  "getCapabilities E c = (None, c') \<Longrightarrow> conf_Capabilities c' \<noteq> None"
  by (auto simp: getCapabilities_def Let_def split: option.splits sum.splits if_splits)

lemma renderResources_calls:
  "\<exists>xs. conf_calls (snd (renderResources E ch values c)) = conf_calls c @ xs \<and>
        set xs \<subseteq> discovery_calls \<union> {ToRESTConfig, RenderWithClient values}"
proof -
  obtain r c1 where g: "getCapabilities E c = (r, c1)" by (metis surj_pair)
  from getCapabilities_calls[of E c] g obtain xs where
    xs: "conf_calls c1 = conf_calls c @ xs" "set xs \<subseteq> discovery_calls" by auto
  show ?thesis
    using g xs
    by (auto simp: renderResources_def Let_def split: option.splits sum.splits)
qed

lemma currentRelease_calls:
  "\<exists>xs. conf_calls (snd (currentRelease E name lastRelease c)) = conf_calls c @ xs \<and>
        set xs \<subseteq> {ReleasesDeployed name}"
  by (auto simp: currentRelease_def Let_def split: sum.splits)

lemma render_contexts_append:
  "render_contexts (xs @ ys) = render_contexts xs @ render_contexts ys"
  by (induction xs rule: render_contexts.induct) simp_all

lemma render_contexts_none:
  "\<forall>x \<in> set xs. \<forall>options. x \<noteq> ToRenderValues options \<Longrightarrow> render_contexts xs = []"
  by (induction xs rule: render_contexts.induct) simp_all

lemma discovery_not_render: "x \<in> discovery_calls \<Longrightarrow> x \<noteq> ToRenderValues options"
  by (auto simp: discovery_calls_def)

lemma discovery_not_mutating: "x \<in> discovery_calls \<Longrightarrow> \<not> mutating x"
  by (auto simp: discovery_calls_def)

lemma prepareUpgrade_ok:
  assumes "prepareUpgrade E name chart vals c = (Inr (om, tm), c')"
  shows "\<exists>lastRelease cur c2 xs ys.
           Releases_Last E name = Inr lastRelease \<and>
           currentRelease E name lastRelease (issue (ReleasesLast name) c) = (Inr cur, c2) \<and>
           om = rel_Manifest cur \<and>
           conf_calls c' = conf_calls c2 @ [ProcessDependencies] @ xs @
                             [ToRenderValues (releaseOptions name lastRelease cur)] @ ys \<and>
           render_contexts xs = [] \<and> render_contexts ys = []"
proof -
  from assms obtain ch where ch: "chart = Some ch"
    by (auto simp: prepareUpgrade_def split: option.splits)
  from assms ch obtain lastRelease where lr: "Releases_Last E name = Inr lastRelease"
    by (auto simp: prepareUpgrade_def Let_def split: sum.splits if_splits)
  obtain r c2 where cr: "currentRelease E name lastRelease (issue (ReleasesLast name) c) = (r, c2)"
    by (metis surj_pair)
  from assms ch lr cr obtain cur where cur: "r = Inr cur"
    by (auto simp: prepareUpgrade_def Let_def split: sum.splits)
  from assms ch lr cr cur obtain ch' where pd: "chartutil_ProcessDependencies E ch vals = Inr ch'"
    by (auto simp: prepareUpgrade_def Let_def split: sum.splits)
  let ?c3 = "issue ProcessDependencies c2"
  obtain g c4 where gc: "getCapabilities E ?c3 = (g, c4)" by (metis surj_pair)
  from assms ch lr cr cur pd gc have g: "g = None"
    by (auto simp: prepareUpgrade_def Let_def split: option.splits)
  from assms ch lr cr cur pd gc g obtain caps where caps: "conf_Capabilities c4 = Some caps"
    by (auto simp: prepareUpgrade_def Let_def split: option.splits)
  let ?opts = "releaseOptions name lastRelease cur"
  from assms ch lr cr cur pd gc g caps obtain v where
    v: "chartutil_ToRenderValues E ch' vals ?opts caps = Inr v"
    by (auto simp: prepareUpgrade_def Let_def split: sum.splits)
  let ?c5 = "issue (ToRenderValues ?opts) c4"
  obtain doc e c6 where rr: "renderResources E ch' v ?c5 = ((doc, e), c6)"
    by (metis surj_pair)
  from assms ch lr cr cur pd gc g caps v rr have res: "om = rel_Manifest cur" "c' = c6"
    by (auto simp: prepareUpgrade_def Let_def split: option.splits)
  from getCapabilities_calls[of E ?c3] gc obtain xs where
    xs: "conf_calls c4 = conf_calls c2 @ [ProcessDependencies] @ xs" "set xs \<subseteq> discovery_calls"
    by auto
  from renderResources_calls[of E ch' v ?c5] rr obtain ys where
    ys: "conf_calls c6 = conf_calls c4 @ [ToRenderValues ?opts] @ ys"
        "set ys \<subseteq> discovery_calls \<union> {ToRESTConfig, RenderWithClient v}"
    by auto
  have "render_contexts xs = []"
    using xs(2) by (intro render_contexts_none) (auto dest: discovery_not_render)
  moreover have "render_contexts ys = []"
    using ys(2) by (intro render_contexts_none) (auto dest: discovery_not_render)
  ultimately show ?thesis
    using lr cr cur res xs(1) ys(1) by auto
qed

lemma prepareUpgrade_calls:
  "\<exists>xs. conf_calls (snd (prepareUpgrade E name chart vals c)) = conf_calls c @ xs \<and>
        (\<forall>x \<in> set xs. \<not> mutating x)"
proof (cases chart)
  case None
  then show ?thesis by (simp add: prepareUpgrade_def)
next
  case (Some ch)
  let ?c1 = "issue (ReleasesLast name) c"
  show ?thesis
  proof (cases "Releases_Last E name")
    case (Inl err)
    with Some show ?thesis by (auto simp: prepareUpgrade_def Let_def)
  next
    case (Inr lastRelease)
    obtain r c2 where cr: "currentRelease E name lastRelease ?c1 = (r, c2)" by (metis surj_pair)
    from currentRelease_calls[of E name lastRelease ?c1] cr obtain ds where
      ds: "conf_calls c2 = conf_calls c @ [ReleasesLast name] @ ds" "set ds \<subseteq> {ReleasesDeployed name}"
      by auto
    have dsm: "\<forall>x \<in> set ds. \<not> mutating x" using ds(2) by auto
    let ?c3 = "issue ProcessDependencies c2"
    obtain g c4 where gc: "getCapabilities E ?c3 = (g, c4)" by (metis surj_pair)
    from getCapabilities_calls[of E ?c3] gc obtain xs where
      xs: "conf_calls c4 = conf_calls c2 @ [ProcessDependencies] @ xs" "set xs \<subseteq> discovery_calls"
      by auto
    have xsm: "\<forall>x \<in> set xs. \<not> mutating x" using xs(2) by (auto dest: discovery_not_mutating)
    have rrm: "\<exists>ys. conf_calls (snd (renderResources E ch' v (issue (ToRenderValues opts) c4))) =
                 conf_calls c4 @ [ToRenderValues opts] @ ys \<and> (\<forall>x \<in> set ys. \<not> mutating x)" for ch' v opts
    proof -
      from renderResources_calls[of E ch' v "issue (ToRenderValues opts) c4"] obtain ys where
        ys: "conf_calls (snd (renderResources E ch' v (issue (ToRenderValues opts) c4))) =
               conf_calls c4 @ [ToRenderValues opts] @ ys"
            "set ys \<subseteq> discovery_calls \<union> {ToRESTConfig, RenderWithClient v}"
        by auto
      have "\<forall>x \<in> set ys. \<not> mutating x" using ys(2) by (auto dest: discovery_not_mutating)
      with ys(1) show ?thesis by blast
    qed
    show ?thesis
    proof (cases r)
      case (Inl err)
      with Some Inr cr ds dsm show ?thesis by (auto simp: prepareUpgrade_def Let_def)
    next
      case cur: (Inr cur)
      show ?thesis
      proof (cases "chartutil_ProcessDependencies E ch vals")
        case (Inl err)
        with Some Inr cr cur ds dsm show ?thesis by (auto simp: prepareUpgrade_def Let_def)
      next
        case pd: (Inr ch')
        show ?thesis
        proof (cases g)
          case (Some err)
          with \<open>chart = Some ch\<close> Inr cr cur pd gc ds dsm xs xsm show ?thesis
            by (auto simp: prepareUpgrade_def Let_def)
        next
          case None
          show ?thesis
          proof (cases "conf_Capabilities c4")
            case nc: None
            with None \<open>chart = Some ch\<close> Inr cr cur pd gc ds dsm xs xsm show ?thesis
              by (auto simp: prepareUpgrade_def Let_def)
          next
            case caps: (Some caps)
            let ?opts = "releaseOptions name lastRelease cur"
            show ?thesis
            proof (cases "chartutil_ToRenderValues E ch' vals ?opts caps")
              case (Inl err)
              with None caps \<open>chart = Some ch\<close> Inr cr cur pd gc ds dsm xs xsm show ?thesis
                by (auto simp: prepareUpgrade_def Let_def)
            next
              case v: (Inr v)
              from rrm[of ch' v ?opts] obtain ys where
                ys: "conf_calls (snd (renderResources E ch' v (issue (ToRenderValues ?opts) c4))) =
                       conf_calls c4 @ [ToRenderValues ?opts] @ ys" "\<forall>x \<in> set ys. \<not> mutating x"
                by blast
              obtain doc e c6 where rr: "renderResources E ch' v (issue (ToRenderValues ?opts) c4) = ((doc, e), c6)"
                by (metis surj_pair)
              have "snd (prepareUpgrade E name chart vals c) = c6"
                using None caps \<open>chart = Some ch\<close> Inr cr cur pd gc v rr
                by (simp add: prepareUpgrade_def Let_def split: option.splits)
              then show ?thesis
                using ys rr xs xsm ds dsm by auto
            qed
          qed
        qed
      qed
    qed
  qed
qed

section \<open>createPatch and the visit of one resource\<close>

lemma createPatch_calls:
  "snd (createPatch E cur t calls) =
     calls @ (case json_Marshal E (Some cur) of
                Inl e \<Rightarrow> []
              | Inr oldData \<Rightarrow>
                 (case json_Marshal E (Some (info_Object t)) of
                    Inl e \<Rightarrow> []
                  | Inr newData \<Rightarrow> [HelperGet t]))"
  by (simp add: createPatch_def Let_def split: sum.splits)

lemma createPatch_snd:
  "snd (createPatch E cur t calls) = calls \<or> snd (createPatch E cur t calls) = calls @ [HelperGet t]"
  by (simp add: createPatch_calls split: sum.splits)


text \<open>Once the three documents are serialized, the patch type follows the classification.\<close>

lemma createPatch_type:
  assumes "json_Marshal E (Some cur) = Inr oldData" "json_Marshal E (Some (info_Object t)) = Inr newData"
    "json_Marshal E (Get_obj E calls t) = Inr currentData"
    "Get_err E calls t = None \<or> IsNotFound (Get_err E calls t)"
  shows "fst (snd (fst (createPatch E cur t calls))) =
           (if schemaless E t then MergePatchType else StrategicMergePatchType)"
  using assms
  by (auto simp: createPatch_def Let_def patch_result_def schemaless_def split: sum.splits)

lemma json_Marshal_helper_Get [simp]: "json_Marshal (E\<lparr>helper_Get := g\<rparr>) = json_Marshal E"
  by (rule ext) (simp add: json_Marshal_def split: option.splits)

lemma schemaless_helper_Get [simp]: "schemaless (E\<lparr>helper_Get := g\<rparr>) = schemaless E"
  by (rule ext) (simp add: schemaless_def)

text \<open>What one visit does, by cases.\<close>

lemma visitFn_NotFound:
  "IsNotFound (Get_err E calls t) \<Longrightarrow>
   visitFn E original t None (ps, calls) = (None, (ps, calls @ [HelperGet t]))"
  by (simp add: visitFn_def)

lemma visitFn_unmatched:
  "\<not> IsNotFound (Get_err E calls t) \<Longrightarrow> ResourceList_Get original t = None \<Longrightarrow>
   visitFn E original t None (ps, calls) =
     (Some (Errorf ''could not find %q'' [info_Name t]), (ps, calls @ [HelperGet t]))"
  by (simp add: visitFn_def)

lemma visitFn_matched:
  "\<not> IsNotFound (Get_err E calls t) \<Longrightarrow> ResourceList_Get original t = Some originalInfo \<Longrightarrow>
   createPatch E (info_Object originalInfo) t (calls @ [HelperGet t]) = ((p, k, e), calls2) \<Longrightarrow>
   visitFn E original t None (ps, calls) =
     (case e of Some err \<Rightarrow> (Some err, (ps, calls2)) | None \<Rightarrow> (None, (ps @ [p], calls2)))"
  by (simp add: visitFn_def split: option.splits)


lemma visitFn_fetches:
  "snd (snd (visitFn E original t None (ps, calls))) = calls @ visit_fetches E original t calls"
proof (cases "IsNotFound (Get_err E calls t)")
  case True
  then show ?thesis by (simp add: visitFn_NotFound visit_fetches_def)
next
  case nf: False
  show ?thesis
  proof (cases "ResourceList_Get original t")
    case None
    with nf show ?thesis by (simp add: visitFn_unmatched visit_fetches_def)
  next
    case (Some oi)
    obtain p k e c2 where cp: "createPatch E (info_Object oi) t (calls @ [HelperGet t]) = ((p, k, e), c2)"
      by (metis prod_cases3 surj_pair)
    from visitFn_matched[OF nf Some cp, of ps]
    have "snd (snd (visitFn E original t None (ps, calls))) = c2"
      by (simp split: option.splits)
    moreover from createPatch_calls[of E "info_Object oi" t "calls @ [HelperGet t]"] cp
    have "c2 = calls @ visit_fetches E original t calls"
      using nf Some by (simp add: visit_fetches_def split: sum.splits)
    ultimately show ?thesis by simp
  qed
qed

lemma visitFn_calls:
  "snd (snd (visitFn E original t None (ps, calls))) = calls @ [HelperGet t] \<or>
   snd (snd (visitFn E original t None (ps, calls))) = calls @ [HelperGet t, HelperGet t]"
  by (simp add: visitFn_fetches visit_fetches_def split: option.splits sum.splits)

section \<open>The traversal\<close>

lemma Visit_append:
  "Visit fn (xs @ ys) s =
     (case Visit fn xs s of (Some err, s') \<Rightarrow> (Some err, s') | (None, s') \<Rightarrow> Visit fn ys s')"
  by (induction xs arbitrary: s) (auto split: prod.splits option.splits)


lemma Visit_calls:
  "\<exists>xs. snd (snd (Visit (visitFn E original) target (ps, calls))) = calls @ xs \<and>
        set xs \<subseteq> HelperGet ` set target"
proof (induction target arbitrary: ps calls)
  case Nil
  then show ?case by simp
next
  case (Cons t target)
  obtain r ps1 calls1 where v: "visitFn E original t None (ps, calls) = (r, (ps1, calls1))"
    by (metis surj_pair)
  from visitFn_calls[of E original t ps calls] v
  have c1: "calls1 = calls @ [HelperGet t] \<or> calls1 = calls @ [HelperGet t, HelperGet t]" by simp
  show ?case
  proof (cases r)
    case (Some e)
    with v c1 show ?thesis by auto
  next
    case None
    from Cons.IH[of ps1 calls1] obtain xs where
      xs: "snd (snd (Visit (visitFn E original) target (ps1, calls1))) = calls1 @ xs"
          "set xs \<subseteq> HelperGet ` set target" by blast
    from v None have "Visit (visitFn E original) (t # target) (ps, calls) =
                      Visit (visitFn E original) target (ps1, calls1)" by simp
    with xs c1 show ?thesis by auto
  qed
qed







text \<open>
  When the steps before the traversal succeed, \<open>createPatchset\<close> is the traversal of the
  target resources followed by the assembly of the patches.
\<close>

lemma createPatchset_visit:
  assumes "actionConfig_Init E = None" "KubeClient_IsReachable E = None"
    "prepareUpgrade E name ch vals \<lparr>conf_Capabilities = None, conf_calls = calls @ [Init, IsReachable]\<rparr> =
       (Inr (om, tm), c2)"
    "KubeClient_Build E om = Inr original" "KubeClient_Build E tm = Inr target"
  shows "createPatchset E name ch vals calls =
           (case Visit (visitFn E original) target ([], conf_calls c2 @ [Build om, Build tm]) of
              (err, (patches, calls')) \<Rightarrow>
                (Returned (''['' @ strings_Join patches '','' @ '']'', err), calls'))"
  using assms by (simp add: createPatchset_def issue_def Let_def)

lemma createPatchset_calls:
  "\<exists>xs. snd (createPatchset E name ch vals calls) = calls @ xs \<and> (\<forall>x \<in> set xs. \<not> mutating x)"
proof -
  let ?c0 = "\<lparr>conf_Capabilities = None, conf_calls = calls @ [Init]\<rparr>"
  let ?c1 = "\<lparr>conf_Capabilities = None, conf_calls = calls @ [Init, IsReachable]\<rparr>"
  obtain r c2 where pu: "prepareUpgrade E name ch vals ?c1 = (r, c2)" by (metis surj_pair)
  from prepareUpgrade_calls[of E name ch vals ?c1] pu obtain xs where
    xs: "conf_calls c2 = calls @ [Init, IsReachable] @ xs" "\<forall>x \<in> set xs. \<not> mutating x" by auto
  have vis: "\<exists>ys. snd (snd (Visit (visitFn E original) target ([], cs))) = cs @ ys \<and>
               (\<forall>x \<in> set ys. \<not> mutating x)" for original target cs
  proof -
    from Visit_calls[of E original target "[]" cs] obtain ys where
      ys: "snd (snd (Visit (visitFn E original) target ([], cs))) = cs @ ys"
          "set ys \<subseteq> HelperGet ` set target" by blast
    from ys(2) have "\<forall>x \<in> set ys. \<not> mutating x" by auto
    with ys(1) show ?thesis by blast
  qed
  show ?thesis
  proof (cases "actionConfig_Init E")
    case (Some e)
    then show ?thesis by (simp add: createPatchset_def issue_def Let_def)
  next
    case i: None
    show ?thesis
    proof (cases "KubeClient_IsReachable E")
      case (Some e)
      with i show ?thesis by (simp add: createPatchset_def issue_def Let_def)
    next
      case re: None
      show ?thesis
      proof (cases r)
        case (Inl e)
        with i re pu xs show ?thesis by (auto simp: createPatchset_def issue_def Let_def)
      next
        case (Inr mm)
        obtain om tm where mm: "mm = (om, tm)" by (metis surj_pair)
        show ?thesis
        proof (cases "KubeClient_Build E om")
          case (Inl e)
          with i re pu xs Inr mm show ?thesis by (auto simp: createPatchset_def issue_def Let_def)
        next
          case bo: (Inr original)
          show ?thesis
          proof (cases "KubeClient_Build E tm")
            case (Inl e)
            with i re pu xs Inr mm bo show ?thesis by (auto simp: createPatchset_def issue_def Let_def)
          next
            case bt: (Inr target)
            from vis[of original target "conf_calls c2 @ [Build om, Build tm]"] obtain ys where
              ys: "snd (snd (Visit (visitFn E original) target ([], conf_calls c2 @ [Build om, Build tm]))) =
                     (conf_calls c2 @ [Build om, Build tm]) @ ys" "\<forall>x \<in> set ys. \<not> mutating x" by blast
            from createPatchset_visit[OF i re pu[unfolded Inr mm] bo bt]
            have "snd (createPatchset E name ch vals calls) =
                    snd (snd (Visit (visitFn E original) target ([], conf_calls c2 @ [Build om, Build tm])))"
              by (simp split: prod.splits)
            with ys xs show ?thesis by auto
          qed
        qed
      qed
    qed
  qed
qed

lemma RunE_calls: "\<forall>x \<in> set (snd (RunE E name chartPath)). \<not> mutating x"
proof -
  have cp: "\<forall>x \<in> set calls'. \<not> mutating x"
    if "createPatchset E name ch vals [MergeValues, LoaderLoad chartPath] = (r, calls')" for ch vals r calls'
    using createPatchset_calls[of E name ch vals "[MergeValues, LoaderLoad chartPath]"] that by auto
  show ?thesis
    by (auto simp: RunE_def split: option.splits sum.splits prod.splits outcome.splits dest: cp)
qed



section \<open>Facts about the patch libraries\<close>

lemma map_of_size:
  "map_of ms k = Some v \<Longrightarrow> size v < Suc (size_list (size_prod (\<lambda>x. 0) size) ms)"
  for ms :: "(string \<times> json) list"
  by (induction ms) (auto split: if_splits)

lemma in_keys: "key \<in> set (keys ms) \<longleftrightarrow> map_of ms key \<noteq> None"
  by (simp add: keys_def map_of_eq_None_iff)

lemma diffMaps_same: "diffMaps False True d d = []"
proof (induction "size (Obj d)" arbitrary: d rule: less_induct)
  case less
  have nested: "diffMaps False True m m = []" if "map_of d key = Some (Obj m)" for key m
    using less[of m] map_of_size[OF that] by simp
  have "(case map_of d key of
          None \<Rightarrow> []
        | Some modifiedValue \<Rightarrow>
           (case map_of d key of
              None \<Rightarrow> if False then [(key, modifiedValue)] else []
            | Some originalValue \<Rightarrow>
               (case originalValue of
                  Obj originalTyped \<Rightarrow>
                    (case modifiedValue of
                       Obj modifiedTyped \<Rightarrow>
                         (let patchValue = diffMaps False True originalTyped modifiedTyped
                          in if patchValue = [] then [] else [(key, Obj patchValue)])
                     | Atom b \<Rightarrow> if False then [(key, modifiedValue)] else [])
                | Atom a \<Rightarrow>
                    if False \<and> originalValue \<noteq> modifiedValue then [(key, modifiedValue)] else []))) = []" for key
    using nested[of key] by (auto split: option.splits json.splits)
  moreover have "filter (\<lambda>key. map_of d key = None) (keys d) = []"
    by (auto simp: filter_empty_conv in_keys)
  ultimately show ?case
    by (subst diffMaps.simps) simp
qed

lemma diffMaps_empty_iff: "diffMaps True False observed declared = [] \<longleftrightarrow> contained declared observed"
proof (induction "size (Obj declared)" arbitrary: declared observed rule: less_induct)
  case less
  have nested: "diffMaps True False c m = [] \<longleftrightarrow> contained m c" if "map_of declared key = Some (Obj m)" for key m c
    using less[of m c] map_of_size[OF that] by simp
  let ?f = "\<lambda>key.
        case map_of declared key of
          None \<Rightarrow> []
        | Some modifiedValue \<Rightarrow>
           (case map_of observed key of
              None \<Rightarrow> if True then [(key, modifiedValue)] else []
            | Some originalValue \<Rightarrow>
               (case originalValue of
                  Obj originalTyped \<Rightarrow>
                    (case modifiedValue of
                       Obj modifiedTyped \<Rightarrow>
                         (let patchValue = diffMaps True False originalTyped modifiedTyped
                          in if patchValue = [] then [] else [(key, Obj patchValue)])
                     | Atom b \<Rightarrow> if True then [(key, modifiedValue)] else [])
                | Atom a \<Rightarrow>
                    if True \<and> originalValue \<noteq> modifiedValue then [(key, modifiedValue)] else []))"
  let ?g = "\<lambda>key.
        case map_of declared key of
          None \<Rightarrow> True
        | Some declaredValue \<Rightarrow>
           (case map_of observed key of
              None \<Rightarrow> False
            | Some liveValue \<Rightarrow>
               (case liveValue of
                  Obj liveTyped \<Rightarrow>
                    (case declaredValue of
                       Obj declaredTyped \<Rightarrow> contained declaredTyped liveTyped
                     | Atom b \<Rightarrow> False)
                | Atom a \<Rightarrow> liveValue = declaredValue))"
  have per_key: "?f key = [] \<longleftrightarrow> ?g key" for key
  proof (cases "map_of declared key")
    case None
    then show ?thesis by simp
  next
    case (Some dv)
    show ?thesis
    proof (cases "map_of observed key")
      case None
      with Some show ?thesis by simp
    next
      case lv: (Some lv)
      show ?thesis
      proof (cases lv)
        case (Atom a)
        with Some lv show ?thesis by auto
      next
        case (Obj lt)
        show ?thesis
        proof (cases dv)
          case (Atom b)
          with Some lv Obj show ?thesis by simp
        next
          case dt: (Obj dt)
          with Some lv Obj nested[of key dt lt] show ?thesis by (simp add: Let_def)
        qed
      qed
    qed
  qed
  have "diffMaps True False observed declared = concat (map ?f (keys declared))"
    by (subst diffMaps.simps) simp
  moreover have "contained declared observed = list_all ?g (keys declared)"
    by (subst contained.simps) simp
  ultimately show ?case
    using per_key by (simp add: list_all_iff)
qed

lemma diffMaps_reset:
  assumes "map_of declared key = Some (Atom v)" "map_of observed key \<noteq> Some (Atom v)"
  shows "(key, Atom v) \<in> set (diffMaps True False observed declared)"
proof -
  from assms(1) have "key \<in> set (keys declared)" by (simp add: in_keys)
  with assms show ?thesis
    apply (subst diffMaps.simps)
    apply (auto split: option.splits json.splits intro!: bexI[of _ key])
    done
qed

lemma diffMaps_distinct: "distinct (map fst (diffMaps changes deletions original modified))"
proof -
  define f where "f = (\<lambda>key.
        case map_of modified key of
          None \<Rightarrow> []
        | Some modifiedValue \<Rightarrow>
           (case map_of original key of
              None \<Rightarrow> if changes then [(key, modifiedValue)] else []
            | Some originalValue \<Rightarrow>
               (case originalValue of
                  Obj originalTyped \<Rightarrow>
                    (case modifiedValue of
                       Obj modifiedTyped \<Rightarrow>
                         (let patchValue = diffMaps changes deletions originalTyped modifiedTyped
                          in if patchValue = [] then [] else [(key, Obj patchValue)])
                     | Atom b \<Rightarrow> if changes then [(key, modifiedValue)] else [])
                | Atom a \<Rightarrow>
                    if changes \<and> originalValue \<noteq> modifiedValue then [(key, modifiedValue)] else [])))"
  define removed where
    "removed = map (\<lambda>key. (key, Atom ''null'')) (filter (\<lambda>key. map_of modified key = None) (keys original))"
  have one: "f key = [] \<or> (\<exists>v. f key = [(key, v)])" for key
    unfolding f_def by (simp add: Let_def split: option.splits json.splits)
  have fst_f: "set (map fst (f key)) \<subseteq> {key}" "distinct (map fst (f key))" for key
    using one[of key] by auto
  have absent: "f key = []" if "map_of modified key = None" for key
    unfolding f_def using that by simp
  have sub: "set (map fst (concat (map f ks))) \<subseteq> {k \<in> set ks. map_of modified k \<noteq> None}" for ks
  proof (induction ks)
    case Nil
    then show ?case by simp
  next
    case (Cons a ks)
    have "set (map fst (f a)) \<subseteq> {k \<in> {a}. map_of modified k \<noteq> None}"
      using fst_f(1)[of a] absent[of a] by (cases "map_of modified a") auto
    with Cons show ?case by auto
  qed
  have d: "distinct (map fst (concat (map f ks)))" if "distinct ks" for ks
    using that
  proof (induction ks)
    case Nil
    then show ?case by simp
  next
    case (Cons a ks)
    from Cons have r: "distinct (map fst (concat (map f ks)))" "a \<notin> set ks" by simp_all
    from sub[of ks] r(2) fst_f(1)[of a]
    have "set (map fst (f a)) \<inter> set (map fst (concat (map f ks))) = {}" by blast
    with fst_f(2)[of a] r(1) show ?case by simp
  qed
  have dr: "distinct (map fst removed)"
    unfolding removed_def by (simp add: comp_def keys_def distinct_map_filter)
  have "set (map fst removed) \<subseteq> {k. map_of modified k = None}"
    unfolding removed_def by (auto simp: comp_def)
  with sub[of "keys modified"]
  have disj: "set (map fst (concat (map f (keys modified)))) \<inter> set (map fst removed) = {}"
    by blast
  have "diffMaps changes deletions original modified =
          concat (map f (keys modified)) @ (if deletions then removed else [])"
    unfolding f_def removed_def by (subst diffMaps.simps) simp
  moreover have "distinct (map fst (concat (map f (keys modified)) @ (if deletions then removed else [])))"
    using d[of "keys modified"] dr disj by (simp add: keys_def)
  ultimately show ?thesis by simp
qed

lemma mergeMap_empty: "distinct (map fst patch) \<Longrightarrow> mergeMap [] patch = patch"
proof -
  assume d: "distinct (map fst patch)"
  have v: "map_of patch (fst x) = Some (snd x)" if "x \<in> set patch" for x
    using d that by (cases x) simp
  have "mergeMap [] patch =
          map (\<lambda>key. (key, case map_of patch key of None \<Rightarrow> Atom ''null'' | Some patchValue \<Rightarrow> patchValue))
            (map fst patch)"
    using d by (subst mergeMap.simps) (auto simp: distinct_remdups_id split: option.splits json.splits)
  also have "\<dots> = map (\<lambda>x. (fst x, case map_of patch (fst x) of None \<Rightarrow> Atom ''null'' | Some patchValue \<Rightarrow> patchValue)) patch"
    by (simp add: comp_def)
  also have "\<dots> = patch"
    by (rule map_idI) (simp add: v)
  finally show ?thesis .
qed

section \<open>Release name validation\<close>

text \<open>
  C10. \<open>validateReleaseName\<close> accepts a name (returns nil) if and only if the name is
  non-empty, at most 53 bytes long (Go's \<open>len\<close>; for the ASCII names a release-name
  pattern admits, bytes are characters) and matches the valid-name pattern. A rejected
  name ends \<open>RunE\<close> in \<open>log.Fatal\<close> with that error before any call to a collaborator
  has been issued: no values are merged, no chart is loaded, no release is looked up,
  nothing is rendered, the runtime is not accessed.
\<close>

theorem release_name_validation:
  "(validateReleaseName E name = None \<longleftrightarrow>
      name \<noteq> [] \<and> length name \<le> 53 \<and> ValidName_MatchString E name) \<and>
   (\<forall>err. validateReleaseName E name = Some err \<longrightarrow> RunE E name chartPath = (Fatal err, []))"
  by (auto simp: validateReleaseName_def RunE_def)

theorem release_name_validation_witness:
  "validateReleaseName example_env ''Foo'' = Some (Errorf ''invalid release name: %s'' [''Foo'']) \<and>
   RunE example_env ''Foo'' ''./foo'' = (Fatal (Errorf ''invalid release name: %s'' [''Foo'']), []) \<and>
   validateReleaseName example_env ''foo'' = None"
proof -
  have rejected: "validateReleaseName example_env ''Foo'' = Some (Errorf ''invalid release name: %s'' [''Foo''])"
    by (simp add: validateReleaseName_def example_env_def)
  have ok: "''foo'' \<noteq> [] \<and> length ''foo'' \<le> 53 \<and> ValidName_MatchString example_env ''foo''"
    by (simp add: example_env_def)
  from release_name_validation[of example_env "''Foo''" "''./foo''"] rejected
  have "RunE example_env ''Foo'' ''./foo'' = (Fatal (Errorf ''invalid release name: %s'' [''Foo'']), [])"
    by blast
  moreover from release_name_validation[of example_env "''foo''" "''./foo''"] ok
  have "validateReleaseName example_env ''foo'' = None"
    by blast
  ultimately show ?thesis using rejected by simp
qed

section \<open>No writes to the cluster\<close>

text \<open>
  C9. For every input (every release name, chart path and behaviour of the
  collaborators), every call the pipeline issues is a read: among the calls of a whole
  run of \<open>RunE\<close>, and among the calls \<open>createPatchset\<close> adds to those before it, there is
  none of the writing operations (create, patch, replace, delete); the runtime is
  touched only by the reachability check, discovery, the release lookups, rendering,
  building and the live-object \<open>Get\<close>. Hence, whatever the effect of the calls on the
  cluster, as long as reads leave it unchanged, the cluster after the computation equals
  the cluster before it.
\<close>

theorem pipeline_never_mutates:
  "(\<forall>x \<in> set (snd (RunE E name chartPath)). \<not> mutating x) \<and>
   (\<exists>xs. snd (createPatchset E name ch vals calls) = calls @ xs \<and> (\<forall>x \<in> set xs. \<not> mutating x)) \<and>
   ((\<forall>x cl. \<not> mutating x \<longrightarrow> effect x cl = cl) \<longrightarrow>
      cluster_after effect (snd (RunE E name chartPath)) cl0 = cl0)"
proof -
  have reads: "\<forall>x \<in> set (snd (RunE E name chartPath)). \<not> mutating x"
    by (rule RunE_calls)
  have "fold effect xs cl0 = cl0"
    if "\<forall>x cl. \<not> mutating x \<longrightarrow> effect x cl = cl" "\<forall>x \<in> set xs. \<not> mutating x" for xs
    using that by (induction xs) simp_all
  with reads createPatchset_calls[of E name ch vals calls] show ?thesis
    by (simp add: cluster_after_def)
qed

theorem pipeline_never_mutates_witness:
  "cluster_after example_effect (snd (RunE example_env ''foo'' ''./foo''))
     [resource ''Deployment'' ''foo'' (replicas ''1'')] = [resource ''Deployment'' ''foo'' (replicas ''1'')] \<and>
   example_effect (HelperDelete (resource ''Deployment'' ''foo'' (replicas ''1'')))
     [resource ''Deployment'' ''foo'' (replicas ''1'')] = []"
proof -
  have reads_keep: "\<forall>x cl. \<not> mutating x \<longrightarrow> example_effect x cl = cl"
  proof (intro allI impI)
    fix x cl assume "\<not> mutating x"
    then show "example_effect x cl = cl" by (cases x) simp_all
  qed
  from pipeline_never_mutates[of example_env "''foo''" "''./foo''" None "[]" "[]" example_effect
         "[resource ''Deployment'' ''foo'' (replicas ''1'')]"] reads_keep
  have "cluster_after example_effect (snd (RunE example_env ''foo'' ''./foo''))
          [resource ''Deployment'' ''foo'' (replicas ''1'')] = [resource ''Deployment'' ''foo'' (replicas ''1'')]"
    by blast
  then show ?thesis by simp
qed

section \<open>Target resources without a match in the original manifest\<close>

lemma live_found: "live E calls t \<Longrightarrow> found E (t, calls)"
  by (simp add: live_def found_def Get_err_def split: sum.splits)

lemma ResourceList_Get_None:
  "ResourceList_Get original t = None \<longleftrightarrow>
   \<not> (\<exists>oi \<in> set original. info_Kind oi = info_Kind t \<and> info_Namespace oi = info_Namespace t \<and>
        info_Name oi = info_Name t)"
  by (auto simp: ResourceList_Get_def isMatchingInfo_def find_None_iff)

lemma ResourceList_Get_Some:
  "ResourceList_Get original t = Some oi \<Longrightarrow>
   oi \<in> set original \<and> info_Kind oi = info_Kind t \<and> info_Namespace oi = info_Namespace t \<and>
   info_Name oi = info_Name t"
  by (auto simp: ResourceList_Get_def isMatchingInfo_def find_Some_iff)

lemma RunE_error:
  "validateReleaseName E name = None \<Longrightarrow> valueOpts_MergeValues E = Inr vals \<Longrightarrow>
   loader_Load E chartPath = Inr ch \<Longrightarrow>
   createPatchset E name (Some ch) vals [MergeValues, LoaderLoad chartPath] = (Returned (patchset, Some err), calls) \<Longrightarrow>
   RunE E name chartPath = (Fatal err, calls)"
  by (simp add: RunE_def)

text \<open>
  C1, as the claim states it, fails, in two ways. (1) The chart of the upgrade renders a
  config map \<open>foo\<close> that exists live and has no match in the original manifest (which
  holds the deployment \<open>foo\<close> only): \<open>createPatchset\<close> returns the error
  \<open>could not find "foo"\<close> with an empty patchset and \<open>RunE\<close> ends in \<open>log.Fatal\<close>; no patch
  against a zero-value original is computed. (2) The match is not on
  group/version/kind/namespace/name: the chart renders the deployment \<open>foo\<close> in group
  \<open>apps\<close>, version \<open>v1\<close>, and the original manifest holds it in group \<open>extensions\<close>,
  version \<open>v1beta1\<close>, so no original resource has the same group and version; the
  computation succeeds, but the patch is computed against the body of that original (it
  deletes the member \<open>paused\<close>, which only that body has), not against a zero value.
\<close>

theorem unmatched_resource_counterexample:
  "steady unmatched_env \<and>
   live unmatched_env [] (resource ''ConfigMap'' ''foo'' (replicas ''3'')) \<and>
   KubeClient_Build unmatched_env (rel_Manifest foo_release) = Inr [resource ''Deployment'' ''foo'' (replicas ''1'')] \<and>
   KubeClient_Build unmatched_env (rendered ''3'') = Inr [resource ''ConfigMap'' ''foo'' (replicas ''3'')] \<and>
   fst (createPatchset unmatched_env ''foo'' (Some \<lparr>ch_KubeVersion = [], ch_body = ''./foo''\<rparr>) ''3'' []) =
     Returned (''[]'', Some (Errorf ''could not find %q'' [''foo''])) \<and>
   fst (RunE unmatched_env ''foo'' ''./foo'') = Fatal (Errorf ''could not find %q'' [''foo'']) \<and>
   steady regrouped_env \<and>
   live regrouped_env [] (resource ''Deployment'' ''foo'' (replicas ''3'')) \<and>
   KubeClient_Build regrouped_env (paused ''1'') =
     Inr [\<lparr>info_Group = ''extensions'', info_Version = ''v1beta1'', info_Kind = ''Deployment'',
           info_Namespace = ''default'', info_Name = ''foo'', info_Export = False, info_Object = paused ''1''\<rparr>] \<and>
   KubeClient_Build regrouped_env (rendered ''3'') =
     Inr [\<lparr>info_Group = ''apps'', info_Version = ''v1'', info_Kind = ''Deployment'',
           info_Namespace = ''default'', info_Name = ''foo'', info_Export = False, info_Object = replicas ''3''\<rparr>] \<and>
   fst (RunE regrouped_env ''foo'' ''./foo'') =
     Returned (''['' @ encode_object [(''paused'', Atom ''null''), (''replicas'', Atom ''3'')] @ '']'')"
proof -
  have a: "steady unmatched_env \<and> live unmatched_env [] (resource ''ConfigMap'' ''foo'' (replicas ''3''))"
    by (simp add: steady_def live_def example_defs unmatched_env_def)
  have b: "KubeClient_Build unmatched_env (rel_Manifest foo_release) = Inr [resource ''Deployment'' ''foo'' (replicas ''1'')] \<and>
      KubeClient_Build unmatched_env (rendered ''3'') = Inr [resource ''ConfigMap'' ''foo'' (replicas ''3'')]"
    by (simp add: example_defs unmatched_env_def)
  have c: "fst (createPatchset unmatched_env ''foo'' (Some \<lparr>ch_KubeVersion = [], ch_body = ''./foo''\<rparr>) ''3'' []) =
     Returned (''[]'', Some (Errorf ''could not find %q'' [''foo'']))"
    by (simp add: example_defs unmatched_env_def pipeline_defs)
  have d: "fst (RunE unmatched_env ''foo'' ''./foo'') = Fatal (Errorf ''could not find %q'' [''foo''])"
    by (simp add: example_defs unmatched_env_def pipeline_defs)
  have e: "steady regrouped_env \<and> live regrouped_env [] (resource ''Deployment'' ''foo'' (replicas ''3''))"
    by (simp add: steady_def live_def example_defs regrouped_env_def)
  have f: "KubeClient_Build regrouped_env (paused ''1'') =
     Inr [\<lparr>info_Group = ''extensions'', info_Version = ''v1beta1'', info_Kind = ''Deployment'',
           info_Namespace = ''default'', info_Name = ''foo'', info_Export = False, info_Object = paused ''1''\<rparr>] \<and>
   KubeClient_Build regrouped_env (rendered ''3'') =
     Inr [\<lparr>info_Group = ''apps'', info_Version = ''v1'', info_Kind = ''Deployment'',
           info_Namespace = ''default'', info_Name = ''foo'', info_Export = False, info_Object = replicas ''3''\<rparr>]"
    by (simp add: example_defs regrouped_env_def paused_def)
  have g: "fst (RunE regrouped_env ''foo'' ''./foo'') =
     Returned (''['' @ encode_object [(''paused'', Atom ''null''), (''replicas'', Atom ''3'')] @ '']'')"
    by (simp add: example_defs regrouped_env_def paused_def pipeline_defs)
  from a b c d e f g show ?thesis by blast
qed

text \<open>
  C1, amended. A target resource has a match in the original manifest when the manifest
  holds a resource of the same kind, namespace and name (helm's \<open>isMatchingInfo\<close>; group
  and version are not compared). For every target resource that exists live (more
  generally: whose existence lookup does not report NotFound) and has no match, the
  visit of that resource returns the error \<open>could not find "<name>"\<close> after the one
  lookup, without computing or appending a patch. The traversal stops there: when the
  resources before it were visited without error, the traversal of the whole target
  list returns exactly that error, with the patches collected before it and no further
  call; \<open>createPatchset\<close> returns that error (beside the string of the patches collected
  before it), and \<open>RunE\<close> ends in \<open>log.Fatal\<close> with it, printing nothing. When an earlier
  resource fails, the traversal returns the error of that resource instead. A target
  resource with a match is not reported: its patch is computed against the body of the
  first match.
\<close>

theorem unmatched_resource_fails:
  "(ResourceList_Get original t = None \<longleftrightarrow>
      \<not> (\<exists>oi \<in> set original. info_Kind oi = info_Kind t \<and> info_Namespace oi = info_Namespace t \<and>
           info_Name oi = info_Name t)) \<and>
   (live E calls t \<longrightarrow> found E (t, calls)) \<and>
   (found E (t, calls) \<and> ResourceList_Get original t = None \<longrightarrow>
      visitFn E original t None (ps, calls) =
        (Some (Errorf ''could not find %q'' [info_Name t]), (ps, calls @ [HelperGet t]))) \<and>
   (found E (t, calls) \<and> ResourceList_Get original t = None \<and>
    Visit (visitFn E original) pre s = (None, (ps, calls)) \<longrightarrow>
      Visit (visitFn E original) (pre @ t # post) s =
        (Some (Errorf ''could not find %q'' [info_Name t]), (ps, calls @ [HelperGet t]))) \<and>
   (found E (t, calls) \<and> ResourceList_Get original t = None \<and>
    actionConfig_Init E = None \<and> KubeClient_IsReachable E = None \<and>
    prepareUpgrade E name ch vals \<lparr>conf_Capabilities = None, conf_calls = cs @ [Init, IsReachable]\<rparr> =
      (Inr (om, tm), c2) \<and>
    KubeClient_Build E om = Inr original \<and> KubeClient_Build E tm = Inr (pre @ t # post) \<and>
    Visit (visitFn E original) pre ([], conf_calls c2 @ [Build om, Build tm]) = (None, (ps, calls)) \<longrightarrow>
      createPatchset E name ch vals cs =
        (Returned (''['' @ strings_Join ps '','' @ '']'', Some (Errorf ''could not find %q'' [info_Name t])),
         calls @ [HelperGet t])) \<and>
   (validateReleaseName E name = None \<and> valueOpts_MergeValues E = Inr vals \<and>
    loader_Load E chartPath = Inr loaded \<and>
    createPatchset E name (Some loaded) vals [MergeValues, LoaderLoad chartPath] =
      (Returned (patchset, Some err), calls') \<longrightarrow>
      RunE E name chartPath = (Fatal err, calls')) \<and>
   (Visit fn pre s' = (Some err, s'') \<longrightarrow> Visit fn (pre @ t # post) s' = (Some err, s'')) \<and>
   (found E (t, calls) \<and> ResourceList_Get original t = Some originalInfo \<longrightarrow>
      info_Kind originalInfo = info_Kind t \<and> info_Namespace originalInfo = info_Namespace t \<and>
      info_Name originalInfo = info_Name t \<and>
      visitFn E original t None (ps, calls) =
        (case createPatch E (info_Object originalInfo) t (calls @ [HelperGet t]) of
           ((patch, k, Some e), calls2) \<Rightarrow> (Some e, (ps, calls2))
         | ((patch, k, None), calls2) \<Rightarrow> (None, (ps @ [patch], calls2))))"
proof -
  let ?err = "Errorf ''could not find %q'' [info_Name t]"
  have one: "visitFn E original t None (ps, calls) = (Some ?err, (ps, calls @ [HelperGet t]))"
    if "found E (t, calls)" "ResourceList_Get original t = None" for ps calls
    using that by (simp add: visitFn_unmatched found_def)
  have two: "Visit (visitFn E original) (pre @ t # post) s = (Some ?err, (ps, calls @ [HelperGet t]))"
    if "found E (t, calls)" "ResourceList_Get original t = None"
       "Visit (visitFn E original) pre s = (None, (ps, calls))" for s
    using that one[OF that(1,2), of ps] by (simp add: Visit_append)
  have three: "createPatchset E name ch vals cs =
        (Returned (''['' @ strings_Join ps '','' @ '']'', Some ?err), calls @ [HelperGet t])"
    if f: "found E (t, calls)" "ResourceList_Get original t = None"
       and r: "actionConfig_Init E = None" "KubeClient_IsReachable E = None"
       "prepareUpgrade E name ch vals \<lparr>conf_Capabilities = None, conf_calls = cs @ [Init, IsReachable]\<rparr> =
          (Inr (om, tm), c2)"
       "KubeClient_Build E om = Inr original" "KubeClient_Build E tm = Inr (pre @ t # post)"
       and v: "Visit (visitFn E original) pre ([], conf_calls c2 @ [Build om, Build tm]) = (None, (ps, calls))"
  proof -
    have "createPatchset E name ch vals cs =
           (case Visit (visitFn E original) (pre @ t # post) ([], conf_calls c2 @ [Build om, Build tm]) of
              (err, (patches, calls')) \<Rightarrow>
                (Returned (''['' @ strings_Join patches '','' @ '']'', err), calls'))"
      using r by (intro createPatchset_visit) simp_all
    with two[OF f v] show ?thesis by simp
  qed
  have four: "RunE E name chartPath = (Fatal err, calls')"
    if "validateReleaseName E name = None" "valueOpts_MergeValues E = Inr vals"
       "loader_Load E chartPath = Inr loaded"
       "createPatchset E name (Some loaded) vals [MergeValues, LoaderLoad chartPath] =
          (Returned (patchset, Some err), calls')"
    using that by (rule RunE_error)
  have five: "Visit fn (pre @ t # post) s' = (Some err, s'')" if "Visit fn pre s' = (Some err, s'')"
    using that by (simp add: Visit_append)
  have six: "info_Kind originalInfo = info_Kind t \<and> info_Namespace originalInfo = info_Namespace t \<and>
      info_Name originalInfo = info_Name t \<and>
      visitFn E original t None (ps, calls) =
        (case createPatch E (info_Object originalInfo) t (calls @ [HelperGet t]) of
           ((patch, k, Some e), calls2) \<Rightarrow> (Some e, (ps, calls2))
         | ((patch, k, None), calls2) \<Rightarrow> (None, (ps @ [patch], calls2)))"
    if f: "found E (t, calls)" and m: "ResourceList_Get original t = Some originalInfo"
  proof -
    obtain p k e c2 where cp: "createPatch E (info_Object originalInfo) t (calls @ [HelperGet t]) = ((p, k, e), c2)"
      by (metis prod_cases3 surj_pair)
    from f have nf: "\<not> IsNotFound (Get_err E calls t)" by (simp add: found_def)
    from visitFn_matched[OF nf m cp, of ps] cp ResourceList_Get_Some[OF m] show ?thesis
      by (simp split: option.splits)
  qed
  from ResourceList_Get_None[of original t] live_found[of E calls t] one[of calls ps] two[of s] three four five six
  show ?thesis by blast
qed


theorem unmatched_resource_fails_witness:
  "ResourceList_Get [resource ''Deployment'' ''foo'' (replicas ''1'')] (resource ''ConfigMap'' ''foo'' (replicas ''3'')) = None \<and>
   Visit (visitFn unmatched_second_env [resource ''Deployment'' ''foo'' (replicas ''1'')])
     [resource ''Deployment'' ''foo'' (replicas ''3''), resource ''ConfigMap'' ''foo'' (replicas ''3'')] ([], []) =
     (Some (Errorf ''could not find %q'' [''foo'']),
      ([replicas ''3''],
       [HelperGet (resource ''Deployment'' ''foo'' (replicas ''3'')), HelperGet (resource ''Deployment'' ''foo'' (replicas ''3'')),
        HelperGet (resource ''ConfigMap'' ''foo'' (replicas ''3''))])) \<and>
   fst (createPatchset unmatched_second_env ''foo'' (Some \<lparr>ch_KubeVersion = [], ch_body = ''./foo''\<rparr>) ''3''
          [MergeValues, LoaderLoad ''./foo'']) =
     Returned (''['' @ replicas ''3'' @ '']'', Some (Errorf ''could not find %q'' [''foo''])) \<and>
   fst (RunE unmatched_second_env ''foo'' ''./foo'') = Fatal (Errorf ''could not find %q'' [''foo'']) \<and>
   Visit (visitFn unmatched_env [resource ''Deployment'' ''foo'' (replicas ''1'')])
     [resource ''ConfigMap'' ''foo'' (replicas ''3''), resource ''Deployment'' ''foo'' (replicas ''3'')] ([], []) =
     (Some (Errorf ''could not find %q'' [''foo'']), ([], [HelperGet (resource ''ConfigMap'' ''foo'' (replicas ''3''))])) \<and>
   visitFn regrouped_env
     [(resource ''Deployment'' ''foo'' (paused ''1''))\<lparr>info_Group := ''extensions'', info_Version := ''v1beta1''\<rparr>]
     (resource ''Deployment'' ''foo'' (replicas ''3'')) None ([], []) =
     (None, ([encode_object [(''paused'', Atom ''null''), (''replicas'', Atom ''3'')]],
             [HelperGet (resource ''Deployment'' ''foo'' (replicas ''3'')), HelperGet (resource ''Deployment'' ''foo'' (replicas ''3''))]))"
proof -
  let ?E = "unmatched_second_env"
  let ?dep1 = "resource ''Deployment'' ''foo'' (replicas ''1'')"
  let ?dep3 = "resource ''Deployment'' ''foo'' (replicas ''3'')"
  let ?cm = "resource ''ConfigMap'' ''foo'' (replicas ''3'')"
  let ?ext = "(resource ''Deployment'' ''foo'' (paused ''1''))\<lparr>info_Group := ''extensions'', info_Version := ''v1beta1''\<rparr>"
  let ?ch = "\<lparr>ch_KubeVersion = [], ch_body = ''./foo''\<rparr>"
  let ?cs = "[MergeValues, LoaderLoad ''./foo'']"
  let ?err = "Errorf ''could not find %q'' [info_Name ?cm]"
  have name: "info_Name ?cm = ''foo''" "info_Name ?dep3 = ''foo''" by (simp_all add: resource_def)
  have f: "found ?E (?cm, calls)" for calls
    by (simp add: found_def example_defs unmatched_second_env_def pipeline_defs)
  have n: "ResourceList_Get [?dep1] ?cm = None"
    by (simp add: pipeline_defs resource_def)
  have v: "Visit (visitFn ?E [?dep1]) [?dep3] ([], calls) =
             (None, ([replicas ''3''], calls @ [HelperGet ?dep3, HelperGet ?dep3]))" for calls
    by (simp add: example_defs unmatched_second_env_def pipeline_defs)
  have v0: "Visit (visitFn ?E [?dep1]) [?dep3] ([], []) = (None, ([replicas ''3''], [HelperGet ?dep3, HelperGet ?dep3]))"
    using v[of "[]"] by simp
  from unmatched_resource_fails[where E = "?E"
         and original = "[?dep1]"
         and t = "?cm"
         and calls = "[HelperGet ?dep3, HelperGet ?dep3]"
         and ps = "[replicas ''3'']"
         and pre = "[?dep3]"
         and s = "([], [])"
         and post = "[]"
         and name = "''foo''"
         and ch = "Some ?ch"
         and vals = "''3''"
         and cs = "[]"
         and om = "replicas ''1''"
         and tm = "rendered ''3''"
         and ?c2.0 = "\<lparr>conf_Capabilities = None, conf_calls = []\<rparr>"
         and chartPath = "''./foo''"
         and loaded = "?ch"
         and patchset = "[]"
         and err = "Errorf ''could not find %q'' [''foo'']"
         and calls' = "[]"
         and fn = "visitFn ?E [?dep1]"
         and s' = "([], [])"
         and s'' = "([], [])"
         and originalInfo = "?dep1"]
       f n v0
  have "Visit (visitFn ?E [?dep1]) ([?dep3] @ ?cm # []) ([], []) =
          (Some ?err, ([replicas ''3''], [HelperGet ?dep3, HelperGet ?dep3] @ [HelperGet ?cm]))"
    by blast
  then have w1: "Visit (visitFn ?E [?dep1]) [?dep3, ?cm] ([], []) =
          (Some (Errorf ''could not find %q'' [''foo'']), ([replicas ''3''], [HelperGet ?dep3, HelperGet ?dep3, HelperGet ?cm]))"
    by (simp add: name)
  have "fst (prepareUpgrade ?E ''foo'' (Some ?ch) ''3'' \<lparr>conf_Capabilities = None, conf_calls = ?cs @ [Init, IsReachable]\<rparr>) =
          Inr (replicas ''1'', rendered ''3'')"
    by (simp add: example_defs unmatched_second_env_def pipeline_defs)
  then obtain c2 where pu: "prepareUpgrade ?E ''foo'' (Some ?ch) ''3''
          \<lparr>conf_Capabilities = None, conf_calls = ?cs @ [Init, IsReachable]\<rparr> = (Inr (replicas ''1'', rendered ''3''), c2)"
    by (metis prod.collapse)
  let ?calls = "(conf_calls c2 @ [Build (replicas ''1''), Build (rendered ''3'')]) @ [HelperGet ?dep3, HelperGet ?dep3]"
  have env: "actionConfig_Init ?E = None" "KubeClient_IsReachable ?E = None"
      "KubeClient_Build ?E (replicas ''1'') = Inr [?dep1]"
      "KubeClient_Build ?E (rendered ''3'') = Inr ([?dep3] @ ?cm # [])"
    by (simp_all add: example_defs unmatched_second_env_def)
  from unmatched_resource_fails[where E = "?E"
         and original = "[?dep1]"
         and t = "?cm"
         and calls = "?calls"
         and ps = "[replicas ''3'']"
         and pre = "[?dep3]"
         and s = "([], [])"
         and post = "[]"
         and name = "''foo''"
         and ch = "Some ?ch"
         and vals = "''3''"
         and cs = "?cs"
         and om = "replicas ''1''"
         and tm = "rendered ''3''"
         and ?c2.0 = c2
         and chartPath = "''./foo''"
         and loaded = "?ch"
         and patchset = "[]"
         and err = "Errorf ''could not find %q'' [''foo'']"
         and calls' = "[]"
         and fn = "visitFn ?E [?dep1]"
         and s' = "([], [])"
         and s'' = "([], [])"
         and originalInfo = "?dep1"]
              f n env pu v[of "conf_calls c2 @ [Build (replicas ''1''), Build (rendered ''3'')]"]
  have cp: "createPatchset ?E ''foo'' (Some ?ch) ''3'' ?cs =
          (Returned (''['' @ strings_Join [replicas ''3''] '','' @ '']'', Some ?err), ?calls @ [HelperGet ?cm])"
    by blast
  then have w2: "fst (createPatchset ?E ''foo'' (Some ?ch) ''3'' ?cs) =
          Returned (''['' @ replicas ''3'' @ '']'', Some (Errorf ''could not find %q'' [''foo'']))"
    by (simp add: name)
  have run: "validateReleaseName ?E ''foo'' = None" "valueOpts_MergeValues ?E = Inr ''3''"
      "loader_Load ?E ''./foo'' = Inr ?ch"
    by (simp_all add: validateReleaseName_def example_defs unmatched_second_env_def)
  from unmatched_resource_fails[where E = "?E"
         and original = "[?dep1]"
         and t = "?cm"
         and calls = "[]"
         and ps = "[]"
         and pre = "[]"
         and s = "([], [])"
         and post = "[]"
         and name = "''foo''"
         and ch = "Some ?ch"
         and vals = "''3''"
         and cs = "[]"
         and om = "replicas ''1''"
         and tm = "rendered ''3''"
         and ?c2.0 = "\<lparr>conf_Capabilities = None, conf_calls = []\<rparr>"
         and chartPath = "''./foo''"
         and loaded = "?ch"
         and patchset = "''['' @ strings_Join [replicas ''3''] '','' @ '']''"
         and err = "?err"
         and calls' = "?calls @ [HelperGet ?cm]"
         and fn = "visitFn ?E [?dep1]"
         and s' = "([], [])"
         and s'' = "([], [])"
         and originalInfo = "?dep1"] run cp
  have "RunE ?E ''foo'' ''./foo'' = (Fatal ?err, ?calls @ [HelperGet ?cm])"
    by blast
  then have w3: "fst (RunE ?E ''foo'' ''./foo'') = Fatal (Errorf ''could not find %q'' [''foo''])"
    by (simp add: name)
  have early: "Visit (visitFn unmatched_env [?dep1]) [?cm] ([], []) =
                 (Some (Errorf ''could not find %q'' [''foo'']), ([], [HelperGet ?cm]))"
    by (simp add: example_defs unmatched_env_def pipeline_defs)
  from unmatched_resource_fails[where E = "?E"
         and original = "[?dep1]"
         and t = "?dep3"
         and calls = "[]"
         and ps = "[]"
         and pre = "[?cm]"
         and s = "([], [])"
         and post = "[]"
         and name = "''foo''"
         and ch = "Some ?ch"
         and vals = "''3''"
         and cs = "[]"
         and om = "replicas ''1''"
         and tm = "rendered ''3''"
         and ?c2.0 = "\<lparr>conf_Capabilities = None, conf_calls = []\<rparr>"
         and chartPath = "''./foo''"
         and loaded = "?ch"
         and patchset = "[]"
         and err = "Errorf ''could not find %q'' [''foo'']"
         and calls' = "[]"
         and fn = "visitFn unmatched_env [?dep1]"
         and s' = "([], [])"
         and s'' = "([], [HelperGet ?cm])"
         and originalInfo = "?dep1"]
       early
  have "Visit (visitFn unmatched_env [?dep1]) ([?cm] @ ?dep3 # []) ([], []) =
          (Some (Errorf ''could not find %q'' [''foo'']), ([], [HelperGet ?cm]))"
    by blast
  then have w4: "Visit (visitFn unmatched_env [?dep1]) [?cm, ?dep3] ([], []) =
          (Some (Errorf ''could not find %q'' [''foo'']), ([], [HelperGet ?cm]))"
    by simp
  have fr: "found regrouped_env (?dep3, [])"
    by (simp add: found_def example_defs regrouped_env_def pipeline_defs)
  have m: "ResourceList_Get [?ext] ?dep3 = Some ?ext"
    by (simp add: pipeline_defs resource_def)
  have cr: "createPatch regrouped_env (info_Object ?ext) ?dep3 ([] @ [HelperGet ?dep3]) =
          ((encode_object [(''paused'', Atom ''null''), (''replicas'', Atom ''3'')], StrategicMergePatchType, None),
           [HelperGet ?dep3, HelperGet ?dep3])"
    by (simp add: example_defs regrouped_env_def paused_def pipeline_defs)
  from unmatched_resource_fails[where E = regrouped_env
         and original = "[?ext]"
         and t = "?dep3"
         and calls = "[]"
         and ps = "[]"
         and pre = "[]"
         and s = "([], [])"
         and post = "[]"
         and name = "''foo''"
         and ch = "Some ?ch"
         and vals = "''3''"
         and cs = "[]"
         and om = "replicas ''1''"
         and tm = "rendered ''3''"
         and ?c2.0 = "\<lparr>conf_Capabilities = None, conf_calls = []\<rparr>"
         and chartPath = "''./foo''"
         and loaded = "?ch"
         and patchset = "[]"
         and err = "Errorf ''could not find %q'' [''foo'']"
         and calls' = "[]"
         and fn = "visitFn ?E [?dep1]"
         and s' = "([], [])"
         and s'' = "([], [])"
         and originalInfo = "?ext"]
       fr m
  have "visitFn regrouped_env [?ext] ?dep3 None ([], []) =
        (case createPatch regrouped_env (info_Object ?ext) ?dep3 ([] @ [HelperGet ?dep3]) of
           ((patch, k, Some e), calls2) \<Rightarrow> (Some e, ([], calls2))
         | ((patch, k, None), calls2) \<Rightarrow> (None, ([] @ [patch], calls2)))"
    by blast
  with cr have w5: "visitFn regrouped_env [?ext] ?dep3 None ([], []) =
        (None, ([encode_object [(''paused'', Atom ''null''), (''replicas'', Atom ''3'')]], [HelperGet ?dep3, HelperGet ?dep3]))"
    by simp
  from n w1 w2 w3 w4 w5 show ?thesis by blast
qed

section \<open>Resources that are not found live\<close>







end
